theory Spec2Isabelle
  imports Complex_Main "HOL-Library.Word" "HOL-Library.Signed_Division"
begin

unbundle bit_operations_syntax

section \<open>gotadoflux: the tado client and the collection cycle\<close>

text \<open>
  A shallow embedding of \<^verbatim>\<open>tado/tado.go\<close> (the credential store, the token
  exchange, \<^verbatim>\<open>AuthCheck\<close> and the three API calls) and of \<^verbatim>\<open>collect\<close> in the
  main package. Everything outside the process (the clock, the file system, the
  tado endpoints, the influx sink) is a field of the record \<open>world\<close>; the functions
  take a world and return the world they leave behind.
\<close>

subsection \<open>Results, errors, panics\<close>

text \<open>
  A Go \<^verbatim>\<open>error\<close> value. A function returning \<^verbatim>\<open>error\<close> is modelled as returning
  \<open>error option\<close> (\<open>None\<close> is \<^verbatim>\<open>nil\<close>); one returning \<^verbatim>\<open>(T, error)\<close> as returning
  \<open>error + T\<close>. \<open>Errorf\<close> carries the message of \<^verbatim>\<open>fmt.Errorf\<close>.
\<close>

datatype error =
    ErrNotExist
  | IOError
  | TransportError
  | JsonError
  | Errorf string

text \<open>
  A run-time panic (nil dereference, index out of range) is not an error value: nothing
  in the program recovers from it, so it ends the process.
\<close>

datatype 'a outcome = Returns 'a | Panics

subsection \<open>Time\<close>

text \<open>
  An instant (\<^verbatim>\<open>time.Time\<close>) is its number of nanoseconds on the time line; a
  \<^verbatim>\<open>time.Duration\<close> is an \<^verbatim>\<open>int64\<close> of nanoseconds, whose arithmetic wraps.
  \<^verbatim>\<open>Add\<close> is modelled on the unbounded time line.
\<close>

type_synonym time = int
type_synonym Duration = "64 word"

definition Second :: Duration where
  "Second = 1000000000"

definition Hour :: Duration where
  "Hour = 3600 * Second"

definition Add :: "time \<Rightarrow> Duration \<Rightarrow> time" where
  "Add t d = t + sint d"

definition Before :: "time \<Rightarrow> time \<Rightarrow> bool" where
  "Before t u \<longleftrightarrow> t < u"

definition After :: "time \<Rightarrow> time \<Rightarrow> bool" where
  "After t u \<longleftrightarrow> u < t"

subsection \<open>The data of package tado\<close>

record TadoError =
  Error :: string
  Description :: string

text \<open>\<^verbatim>\<open>TokenResponse\<close>, its fields under their JSON names; \<^verbatim>\<open>ExpiresIn\<close> is a Go \<^verbatim>\<open>int\<close>.\<close>

record TokenResponse =
  access_token :: string
  token_type :: string
  refresh_token :: string
  expires_in :: "64 word"
  scope :: string
  jti :: string

record Home =
  Home_Id :: int
  Home_Name :: string

text \<open>\<^verbatim>\<open>Homes []*Home\<close>: a list of pointers, each of which may be nil.\<close>

record MeResponse =
  Homes :: "Home option list"

record Zone =
  Zone_Id :: int
  Zone_Name :: string

text \<open>Pointer fields (\<^verbatim>\<open>*float32\<close>, \<^verbatim>\<open>*time.Time\<close>, \<^verbatim>\<open>*string\<close>) are options: \<open>None\<close> is nil.\<close>

record Temperature =
  Celsius :: "real option"
  Temperature_Timestamp :: "time option"

record Humidity =
  Humidity_Percentage :: "real option"
  Humidity_Timestamp :: "time option"

record AcPower =
  Value :: "string option"
  AcPower_Timestamp :: "time option"

record HeatingPower =
  HeatingPower_Percentage :: "real option"
  HeatingPower_Timestamp :: "time option"

record SensorDataPoints =
  InsideTemperature :: "Temperature option"
  Humidity :: "Humidity option"

record ActivityDataPoints =
  AcPower :: "AcPower option"
  HeatingPower :: "HeatingPower option"

record ZoneState =
  SensorDataPoints :: SensorDataPoints
  ActivityDataPoints :: ActivityDataPoints

text \<open>
  \<^verbatim>\<open>ZoneStates map[string]ZoneState\<close>: the entries of the map, in the order in which
  \<^verbatim>\<open>range\<close> visits them in this run (Go leaves that order open).
\<close>

record ZoneStatesResponse =
  ZoneStates :: "(string \<times> ZoneState) list"

record Tado =
  Username :: string
  password :: string
  refreshTokenPath :: string
  accessToken :: string
  expires :: time
  refresh :: time

subsection \<open>The influx point\<close>

text \<open>What \<^verbatim>\<open>client.NewPoint(name, tags, fields, t)\<close> is given.\<close>

record Point =
  Point_Name :: string
  Tags :: "string \<rightharpoonup> string"
  Fields :: "string \<rightharpoonup> real"
  Point_Time :: time

subsection \<open>The world outside the process\<close>

type_synonym FileMode = "32 word"

text \<open>A file of the file system: what \<^verbatim>\<open>os.Stat\<close> reports of it, and its bytes.\<close>

record FileInfo =
  Mode :: FileMode
  ModTime :: time
  Contents :: string

text \<open>The two grants \<^verbatim>\<open>AquireToken\<close> and \<^verbatim>\<open>RefreshToken\<close> post to the token endpoint.\<close>

datatype grant =
    Grant_password string string
  | Grant_refresh_token string

text \<open>
  The answer of the token endpoint: the status code and what the two
  \<^verbatim>\<open>Decode\<close> calls leave in \<^verbatim>\<open>tadoError\<close> and in \<^verbatim>\<open>tokens\<close> (their errors are
  dropped by the code, so a body that does not decode leaves the zero values).
\<close>

record token_response =
  token_StatusCode :: nat
  token_tadoError :: TadoError
  token_tokens :: TokenResponse

text \<open>
  \<^verbatim>\<open>Decode(&tadoError)\<close> in the API calls decodes into a pointer to a pointer: the JSON
  value \<^verbatim>\<open>null\<close> sets \<^verbatim>\<open>tadoError\<close> to nil without an error.
\<close>

datatype 'a decode = DecodeError | DecodeNull | Decoded 'a

text \<open>
  The answer of an API endpoint: the status code, what the body decodes to as a
  \<^verbatim>\<open>TadoError\<close>, and what it decodes to as the value asked for (\<open>None\<close>: the decoder
  returns an error).
\<close>

record 'a response =
  StatusCode :: nat
  as_TadoError :: "TadoError decode"
  as_value :: "'a option"

text \<open>The calls the process has made, oldest first.\<close>

datatype call =
    Call_AquireToken
  | Call_RefreshToken
  | Call_GetHome
  | Call_GetZoneStates int
  | Call_GetZones int
  | Call_Write "Point list"

text \<open>
  \<open>now\<close> is what \<^verbatim>\<open>time.Now()\<close> returns: one call of a function of the client, and one
  cycle of \<^verbatim>\<open>collect\<close>, read the same instant throughout. The endpoints answer a
  request given the calls made so far (\<open>None\<close>: \<^verbatim>\<open>client.Do\<close> returns an error).
  The \<open>_fault\<close> fields say where the operating system fails a call on a path for a
  reason other than the file's absence.
\<close>

record world =
  now :: time
  GOOS :: string
  umask :: FileMode
  files :: "string \<rightharpoonup> FileInfo"
  stat_fault :: "string \<Rightarrow> bool"
  read_fault :: "string \<Rightarrow> bool"
  write_fault :: "string \<Rightarrow> bool"
  token_endpoint :: "call list \<Rightarrow> grant \<Rightarrow> token_response option"
  api_me :: "call list \<Rightarrow> string \<Rightarrow> MeResponse response option"
  api_zoneStates :: "call list \<Rightarrow> string \<Rightarrow> int \<Rightarrow> ZoneStatesResponse response option"
  api_zones :: "call list \<Rightarrow> string \<Rightarrow> int \<Rightarrow> Zone list response option"
  influx_NewBatchPoints :: "error option"
  influx_Write :: "call list \<Rightarrow> Point list \<Rightarrow> error option"
  calls :: "call list"

subsection \<open>The file system calls\<close>

definition Stat :: "world \<Rightarrow> string \<Rightarrow> error + FileInfo" where
  "Stat w name =
     (if stat_fault w name then Inl IOError
      else case files w name of None \<Rightarrow> Inl ErrNotExist | Some f \<Rightarrow> Inr f)"

definition ReadFile :: "world \<Rightarrow> string \<Rightarrow> error + string" where
  "ReadFile w name =
     (if read_fault w name then Inl IOError
      else case files w name of None \<Rightarrow> Inl ErrNotExist | Some f \<Rightarrow> Inr (Contents f))"

text \<open>
  \<^verbatim>\<open>ioutil.WriteFile(name, data, perm)\<close>: a file that does not exist is created with
  \<open>perm\<close> less the umask; one that exists is truncated and written, its mode kept.
  A failing write is one that fails to open the file, which it leaves as it was.
\<close>

definition WriteFile :: "world \<Rightarrow> string \<Rightarrow> string \<Rightarrow> FileMode \<Rightarrow> error + world" where
  "WriteFile w name data perm =
     (if write_fault w name then Inl IOError
      else Inr (w\<lparr>files := (files w)(name \<mapsto>
        (case files w name of
           None \<Rightarrow> \<lparr>Mode = perm AND NOT (umask w), ModTime = now w, Contents = data\<rparr>
         | Some f \<Rightarrow> f\<lparr>ModTime := now w, Contents := data\<rparr>))\<rparr>))"

text \<open>The octal modes of the source: \<^verbatim>\<open>0600\<close> is 384 and \<^verbatim>\<open>0666\<close> is 438.\<close>

definition mode_0600 :: FileMode where
  "mode_0600 = 384"

definition mode_0666 :: FileMode where
  "mode_0666 = 438"

subsection \<open>The credential store\<close>

text \<open>
  \<^verbatim>\<open>TokenEncrypt\<close> and \<^verbatim>\<open>TokenDecrypt\<close> are called by \<^verbatim>\<open>tado.go\<close> and declared in a
  file of the package that is not part of the source at hand, so the functions below
  take the pair as a parameter.
\<close>

record codec =
  TokenEncrypt :: "string \<Rightarrow> string"
  TokenDecrypt :: "string \<Rightarrow> string"

definition SaveRefreshToken :: "codec \<Rightarrow> Tado \<Rightarrow> string \<Rightarrow> world \<Rightarrow> error option \<times> world" where
  "SaveRefreshToken cd t token w =
     (if length token = 0 then (Some (Errorf ''Cannot save empty refresh token''), w)
      else
        let encToken = TokenEncrypt cd token in
        (case WriteFile w (refreshTokenPath t) encToken mode_0666 of
           Inl err \<Rightarrow> (Some err, w)
         | Inr w' \<Rightarrow> (None, w')))"

definition GetRefreshToken :: "codec \<Rightarrow> Tado \<Rightarrow> world \<Rightarrow> error + string" where
  "GetRefreshToken cd t w =
     (case Stat w (refreshTokenPath t) of
        Inl err \<Rightarrow> Inl err
      | Inr fileInfo \<Rightarrow>
          if Mode fileInfo \<noteq> mode_0600 \<and> GOOS w \<noteq> ''windows'' then
            Inl (Errorf ''refresh token cache is not properly protected'')
          else if Before (Add (ModTime fileInfo) (180 * 25 * Hour)) (now w) then Inr ''''
          else if length (Contents fileInfo) = 0 then Inr ''''
          else
            (case ReadFile w (refreshTokenPath t) of
               Inl err \<Rightarrow> Inl err
             | Inr token \<Rightarrow> Inr (TokenDecrypt cd token)))"

definition HasRefreshToken :: "Tado \<Rightarrow> world \<Rightarrow> bool" where
  "HasRefreshToken t w =
     (case Stat w (refreshTokenPath t) of
        Inl err \<Rightarrow> False
      | Inr fileInfo \<Rightarrow>
          if Mode fileInfo \<noteq> mode_0600 \<and> GOOS w \<noteq> ''windows'' then False
          else if Before (Add (ModTime fileInfo) (180 * 25 * Hour)) (now w) then False
          else if length (Contents fileInfo) = 0 then False
          else True)"

subsection \<open>The token exchange\<close>

text \<open>
  \<^verbatim>\<open>http.NewRequest\<close> is given a constant method and a URL built from constants and
  a decimal number: it does not fail, and its error branch has no counterpart here.
  \<^verbatim>\<open>tokens.ExpiresIn/2\<close> is Go's division, which truncates.
\<close>

definition install_session :: "Tado \<Rightarrow> TokenResponse \<Rightarrow> world \<Rightarrow> Tado" where
  "install_session t tokens w =
     t\<lparr>expires := Add (now w) (Second * expires_in tokens),
        refresh := Add (now w) (Second * word_of_int (sint (expires_in tokens) sdiv 2)),
        accessToken := access_token tokens\<rparr>"

definition AquireToken :: "codec \<Rightarrow> Tado \<Rightarrow> world \<Rightarrow> error option \<times> Tado \<times> world" where
  "AquireToken cd t w0 =
     (let w = w0\<lparr>calls := calls w0 @ [Call_AquireToken]\<rparr> in
      case token_endpoint w (calls w) (Grant_password (Username t) (password t)) of
        None \<Rightarrow> (Some TransportError, t, w)
      | Some tokenresponse \<Rightarrow>
          if token_StatusCode tokenresponse div 100 \<ge> 4 then
            (Some (Errorf (''could not get token: '' @ Description (token_tadoError tokenresponse))), t, w)
          else
            let tokens = token_tokens tokenresponse in
            (case SaveRefreshToken cd t (refresh_token tokens) w of
               (Some err, w') \<Rightarrow> (Some (Errorf ''Could not save refresh token''), t, w')
             | (None, w') \<Rightarrow> (None, install_session t tokens w', w')))"

definition RefreshToken :: "codec \<Rightarrow> Tado \<Rightarrow> world \<Rightarrow> error option \<times> Tado \<times> world" where
  "RefreshToken cd t w0 =
     (let w = w0\<lparr>calls := calls w0 @ [Call_RefreshToken]\<rparr> in
      if \<not> HasRefreshToken t w then (Some (Errorf ''No refresh token''), t, w)
      else
        case GetRefreshToken cd t w of
          Inl err \<Rightarrow> (Some err, t, w)
        | Inr refreshToken \<Rightarrow>
            (case token_endpoint w (calls w) (Grant_refresh_token refreshToken) of
               None \<Rightarrow> (Some TransportError, t, w)
             | Some tokenresponse \<Rightarrow>
                 if token_StatusCode tokenresponse div 100 \<ge> 4 then
                   (Some (Errorf (''could not get token: '' @ Description (token_tadoError tokenresponse))), t, w)
                 else
                   let tokens = token_tokens tokenresponse in
                   (case SaveRefreshToken cd t (refresh_token tokens) w of
                      (Some err, w') \<Rightarrow> (Some (Errorf ''Could not save refresh token''), t, w')
                    | (None, w') \<Rightarrow> (None, install_session t tokens w', w'))))"

subsection \<open>AuthCheck\<close>

text \<open>
  \<open>AuthCheck_rest\<close> is \<^verbatim>\<open>AuthCheck\<close> from its second \<^verbatim>\<open>if\<close> on (lines 272 to 293): the
  part that runs when the first block has not returned.
\<close>

definition AuthCheck_rest :: "codec \<Rightarrow> Tado \<Rightarrow> world \<Rightarrow> error option \<times> Tado \<times> world" where
  "AuthCheck_rest cd t w =
     (let no_token = (\<lambda>t'. if length (accessToken t') = 0 then Some (Errorf ''No access token'') else None) in
      if length (accessToken t) = 0 then
        if HasRefreshToken t w then
          (case RefreshToken cd t w of
             (Some err, t', w') \<Rightarrow> (Some err, t', w')
           | (None, t', w') \<Rightarrow> (no_token t', t', w'))
        else
          (case AquireToken cd t w of
             (Some err, t', w') \<Rightarrow> (Some err, t', w')
           | (None, t', w') \<Rightarrow> (no_token t', t', w'))
      else (no_token t, t, w))"

definition AuthCheck :: "codec \<Rightarrow> Tado \<Rightarrow> world \<Rightarrow> error option \<times> Tado \<times> world" where
  "AuthCheck cd t w =
     (if length (accessToken t) > 0 then
        if After (refresh t) (now w) then (None, t, w)
        else if HasRefreshToken t w then
          (case RefreshToken cd t w of
             (err, t', w') \<Rightarrow>
               if err \<noteq> None \<and> Before (expires t') (now w') then (err, t', w')
               else AuthCheck_rest cd t' w')
        else
          (case AquireToken cd t w of
             (err, t', w') \<Rightarrow>
               if err \<noteq> None \<and> Before (expires t') (now w') then (err, t', w')
               else AuthCheck_rest cd t' w')
      else AuthCheck_rest cd t w)"

subsection \<open>The API calls\<close>

text \<open>
  Lines 314 to 321 of \<^verbatim>\<open>GetHome\<close>, the same in \<^verbatim>\<open>GetZoneStates\<close> and \<^verbatim>\<open>GetZones\<close>: the
  error an answer of status 400 or more is turned into. A body that is the JSON value
  \<^verbatim>\<open>null\<close> leaves \<^verbatim>\<open>tadoError\<close> nil, and reading its \<^verbatim>\<open>Description\<close> panics.
  \<^verbatim>\<open>fmt.Errorf\<close> is given the description as its format; the model keeps the
  description as the message.
\<close>

definition error_of_response :: "TadoError decode \<Rightarrow> error outcome" where
  "error_of_response d =
     (case d of
        DecodeError \<Rightarrow> Returns JsonError
      | DecodeNull \<Rightarrow> Panics
      | Decoded tadoError \<Rightarrow> Returns (Errorf (Description tadoError)))"

text \<open>\<^verbatim>\<open>me.Homes[0]\<close>: indexing an empty slice panics.\<close>

definition GetHome ::
  "codec \<Rightarrow> Tado \<Rightarrow> world \<Rightarrow> ((error + Home option) \<times> Tado \<times> world) outcome" where
  "GetHome cd t w0 =
     (let w = w0\<lparr>calls := calls w0 @ [Call_GetHome]\<rparr> in
      case AuthCheck cd t w of
        (Some err, t', w') \<Rightarrow> Returns (Inl err, t', w')
      | (None, t', w') \<Rightarrow>
          (case api_me w' (calls w') (accessToken t') of
             None \<Rightarrow> Returns (Inl TransportError, t', w')
           | Some response \<Rightarrow>
               if StatusCode response div 100 \<ge> 4 then
                 (case error_of_response (as_TadoError response) of
                    Panics \<Rightarrow> Panics
                  | Returns err \<Rightarrow> Returns (Inl err, t', w'))
               else
                 (case as_value response of
                    None \<Rightarrow> Returns (Inl JsonError, t', w')
                  | Some me \<Rightarrow>
                      (case Homes me of
                         [] \<Rightarrow> Panics
                       | home # _ \<Rightarrow> Returns (Inr home, t', w')))))"

definition GetZoneStates ::
  "codec \<Rightarrow> Tado \<Rightarrow> int \<Rightarrow> world \<Rightarrow> ((error + ZoneStatesResponse) \<times> Tado \<times> world) outcome" where
  "GetZoneStates cd t id' w0 =
     (let w = w0\<lparr>calls := calls w0 @ [Call_GetZoneStates id']\<rparr> in
      case AuthCheck cd t w of
        (Some err, t', w') \<Rightarrow> Returns (Inl err, t', w')
      | (None, t', w') \<Rightarrow>
          (case api_zoneStates w' (calls w') (accessToken t') id' of
             None \<Rightarrow> Returns (Inl TransportError, t', w')
           | Some response \<Rightarrow>
               if StatusCode response div 100 \<ge> 4 then
                 (case error_of_response (as_TadoError response) of
                    Panics \<Rightarrow> Panics
                  | Returns err \<Rightarrow> Returns (Inl err, t', w'))
               else
                 (case as_value response of
                    None \<Rightarrow> Returns (Inl JsonError, t', w')
                  | Some zoneStates \<Rightarrow> Returns (Inr zoneStates, t', w'))))"

definition GetZones ::
  "codec \<Rightarrow> Tado \<Rightarrow> int \<Rightarrow> world \<Rightarrow> ((error + Zone list) \<times> Tado \<times> world) outcome" where
  "GetZones cd t id' w0 =
     (let w = w0\<lparr>calls := calls w0 @ [Call_GetZones id']\<rparr> in
      case AuthCheck cd t w of
        (Some err, t', w') \<Rightarrow> Returns (Inl err, t', w')
      | (None, t', w') \<Rightarrow>
          (case api_zones w' (calls w') (accessToken t') id' of
             None \<Rightarrow> Returns (Inl TransportError, t', w')
           | Some response \<Rightarrow>
               if StatusCode response div 100 \<ge> 4 then
                 (case error_of_response (as_TadoError response) of
                    Panics \<Rightarrow> Panics
                  | Returns err \<Rightarrow> Returns (Inl err, t', w'))
               else
                 (case as_value response of
                    None \<Rightarrow> Returns (Inl JsonError, t', w')
                  | Some newZones \<Rightarrow> Returns (Inr newZones, t', w'))))"

subsection \<open>Strings\<close>

text \<open>\<^verbatim>\<open>strconv.Itoa\<close>: the decimal digits, most significant first, after the sign.\<close>

fun digits :: "nat \<Rightarrow> string" where
  "digits n =
     (if n < 10 then [''0123456789'' ! n]
      else digits (n div 10) @ [''0123456789'' ! (n mod 10)])"

declare digits.simps [simp del]

definition Itoa :: "int \<Rightarrow> string" where
  "Itoa i = (if i < 0 then CHR ''-'' # digits (nat (- i)) else digits (nat i))"

text \<open>\<^verbatim>\<open>strings.ToUpper\<close> on the bytes of an ASCII string; other bytes are left as they are.\<close>

definition ToUpper_byte :: "char \<Rightarrow> char" where
  "ToUpper_byte c =
     (case map_of (zip ''abcdefghijklmnopqrstuvwxyz'' ''ABCDEFGHIJKLMNOPQRSTUVWXYZ'') c of
        None \<Rightarrow> c
      | Some u \<Rightarrow> u)"

definition ToUpper :: "string \<Rightarrow> string" where
  "ToUpper s = map ToUpper_byte s"

subsection \<open>The collection cycle\<close>

text \<open>
  The globals of the main package that \<^verbatim>\<open>collect\<close> reads and writes. \<^verbatim>\<open>conf.Collect\<close>
  is a list of homes; its element type is declared in package \<^verbatim>\<open>config\<close>, of which
  \<^verbatim>\<open>collect\<close> reads the fields \<^verbatim>\<open>Id\<close> and \<^verbatim>\<open>Name\<close>.
\<close>

record collector =
  Collect :: "Home list"
  tadoclient :: Tado
  zones :: "int \<rightharpoonup> (string \<rightharpoonup> string)"
  points :: "Point list"
  lastSync :: time

text \<open>\<^verbatim>\<open>zones[home.Id][zoneId]\<close> with its \<^verbatim>\<open>found\<close> flag: \<open>None\<close> when the key is missing.\<close>

definition zone_lookup :: "(int \<rightharpoonup> (string \<rightharpoonup> string)) \<Rightarrow> int \<Rightarrow> string \<Rightarrow> string option" where
  "zone_lookup zs homeId zoneId =
     (case zs homeId of None \<Rightarrow> None | Some m \<Rightarrow> m zoneId)"

text \<open>Lines 78 to 86: the power percentage.\<close>

definition powerPc :: "ActivityDataPoints \<Rightarrow> real outcome" where
  "powerPc a =
     (case (case AcPower a of
              None \<Rightarrow> Returns 0
            | Some ac \<Rightarrow>
                (case Value ac of
                   None \<Rightarrow> Panics
                 | Some v \<Rightarrow> Returns (if ToUpper v = ''ON'' then 100 else 0))) of
        Panics \<Rightarrow> Panics
      | Returns pc \<Rightarrow>
          (case HeatingPower a of
             None \<Rightarrow> Returns pc
           | Some hp \<Rightarrow>
               (case HeatingPower_Percentage hp of
                  None \<Rightarrow> Panics
                | Some pc' \<Rightarrow> Returns pc')))"

text \<open>
  Lines 69 to 106, the body of the loop over the zone states: \<open>Returns None\<close> is a
  \<^verbatim>\<open>continue\<close>, \<open>Returns (Some point)\<close> the point that line 106 appends. A key that
  is missing from \<^verbatim>\<open>zones\<close> reads as the empty name. What \<^verbatim>\<open>client.NewPoint\<close>
  refuses (a non-finite number, a key of 64 KiB) is outside the model.
\<close>

definition zone_point ::
  "Home \<Rightarrow> (int \<rightharpoonup> (string \<rightharpoonup> string)) \<Rightarrow> time \<Rightarrow> string \<Rightarrow> ZoneState \<Rightarrow> Point option outcome" where
  "zone_point home zs watermark zoneId state =
     (let zoneName = (case zone_lookup zs (Home_Id home) zoneId of None \<Rightarrow> [] | Some n \<Rightarrow> n) in
      case InsideTemperature (SensorDataPoints state) of
        None \<Rightarrow> Returns None
      | Some insideTemperature \<Rightarrow>
          (case Temperature_Timestamp insideTemperature of
             None \<Rightarrow> Panics
           | Some timestamp \<Rightarrow>
               if Before timestamp watermark then Returns None
               else
                 let name = Home_Name home @ ''.'' @ zoneName in
                 (case powerPc (ActivityDataPoints state) of
                   Panics \<Rightarrow> Panics
                 | Returns pc \<Rightarrow>
                     (case Celsius insideTemperature of
                        None \<Rightarrow> Panics
                      | Some celsius \<Rightarrow>
                          (case Humidity (SensorDataPoints state) of
                             None \<Rightarrow> Panics
                           | Some humidity \<Rightarrow>
                               (case Humidity_Percentage humidity of
                                  None \<Rightarrow> Panics
                                | Some percentage \<Rightarrow>
                                    Returns (Some
                                      \<lparr>Point_Name = name,
                                       Tags = [''homeId'' \<mapsto> Itoa (Home_Id home),
                                               ''homeName'' \<mapsto> Home_Name home,
                                               ''zoneId'' \<mapsto> zoneId,
                                               ''zoneName'' \<mapsto> zoneName,
                                               ''source'' \<mapsto> ''tado''],
                                       Fields = [''temperature'' \<mapsto> celsius,
                                                 ''humidity'' \<mapsto> percentage,
                                                 ''power'' \<mapsto> pc],
                                       Point_Time = timestamp\<rparr>)))))))"

text \<open>Lines 68 to 107: the loop over the zone states of one home.\<close>

fun collect_states ::
  "Home \<Rightarrow> (int \<rightharpoonup> (string \<rightharpoonup> string)) \<Rightarrow> time \<Rightarrow> (string \<times> ZoneState) list \<Rightarrow> Point list
     \<Rightarrow> Point list outcome" where
  "collect_states home zs watermark [] ps = Returns ps"
| "collect_states home zs watermark ((zoneId, state) # rest) ps =
     (case zone_point home zs watermark zoneId state of
        Panics \<Rightarrow> Panics
      | Returns None \<Rightarrow> collect_states home zs watermark rest ps
      | Returns (Some point) \<Rightarrow> collect_states home zs watermark rest (ps @ [point]))"

text \<open>Lines 63 to 66: the cache entry built from the zones fetched.\<close>

definition zone_names :: "Zone list \<Rightarrow> (string \<rightharpoonup> string)" where
  "zone_names newZones = foldl (\<lambda>m zone. m(Itoa (Zone_Id zone) \<mapsto> Zone_Name zone)) Map.empty newZones"

text \<open>
  Lines 44 to 54. The loop of line 48 ranges over the same map as the loop of line 68;
  what it computes does not depend on the order.
\<close>

definition homefound :: "collector \<Rightarrow> Home \<Rightarrow> bool" where
  "homefound c home \<longleftrightarrow> zones c (Home_Id home) \<noteq> None"

definition allzonesfound :: "collector \<Rightarrow> Home \<Rightarrow> ZoneStatesResponse \<Rightarrow> bool" where
  "allzonesfound c home states =
     (if homefound c home then
        list_all (\<lambda>(zoneId, state). zone_lookup (zones c) (Home_Id home) zoneId \<noteq> None) (ZoneStates states)
      else True)"

text \<open>Lines 68 to 107 on the globals.\<close>

definition collect_points :: "Home \<Rightarrow> ZoneStatesResponse \<Rightarrow> collector \<Rightarrow> world \<Rightarrow> (collector \<times> world) outcome" where
  "collect_points home states c w =
     (case collect_states home (zones c) (lastSync c) (ZoneStates states) (points c) of
        Panics \<Rightarrow> Panics
      | Returns ps \<Rightarrow> Returns (c\<lparr>points := ps\<rparr>, w))"

text \<open>Lines 38 to 107: the body of the loop over the homes.\<close>

definition collect_home :: "codec \<Rightarrow> Home \<Rightarrow> collector \<Rightarrow> world \<Rightarrow> (collector \<times> world) outcome" where
  "collect_home cd home c w =
     (case GetZoneStates cd (tadoclient c) (Home_Id home) w of
        Panics \<Rightarrow> Panics
      | Returns (Inl err, t1, w1) \<Rightarrow> Returns (c\<lparr>tadoclient := t1\<rparr>, w1)
      | Returns (Inr states, t1, w1) \<Rightarrow>
          if \<not> homefound c home \<or> \<not> allzonesfound c home states then
            (case GetZones cd t1 (Home_Id home) w1 of
               Panics \<Rightarrow> Panics
             | Returns (Inl err, t2, w2) \<Rightarrow> Returns (c\<lparr>tadoclient := t2\<rparr>, w2)
             | Returns (Inr newZones, t2, w2) \<Rightarrow>
                 collect_points home states
                   (c\<lparr>tadoclient := t2, zones := (zones c)(Home_Id home \<mapsto> zone_names newZones)\<rparr>) w2)
          else collect_points home states (c\<lparr>tadoclient := t1\<rparr>) w1)"

fun collect_homes :: "codec \<Rightarrow> Home list \<Rightarrow> collector \<Rightarrow> world \<Rightarrow> (collector \<times> world) outcome" where
  "collect_homes cd [] c w = Returns (c, w)"
| "collect_homes cd (home # homes) c w =
     (case collect_home cd home c w of
        Panics \<Rightarrow> Panics
      | Returns (c', w') \<Rightarrow> collect_homes cd homes c' w')"

text \<open>
  \<^verbatim>\<open>collect\<close>. Line 113 adds the points to the batch before line 114 looks at the
  error of \<^verbatim>\<open>NewBatchPoints\<close>; the batch handed to \<^verbatim>\<open>influx.Write\<close> is \<^verbatim>\<open>points\<close>.
\<close>

definition collect :: "codec \<Rightarrow> collector \<Rightarrow> world \<Rightarrow> (collector \<times> world) outcome" where
  "collect cd c w =
     (case collect_homes cd (Collect c) c w of
        Panics \<Rightarrow> Panics
      | Returns (c1, w1) \<Rightarrow>
          (case influx_NewBatchPoints w1 of
             Some err \<Rightarrow> Returns (c1, w1)
           | None \<Rightarrow>
               let w2 = w1\<lparr>calls := calls w1 @ [Call_Write (points c1)]\<rparr> in
               (case influx_Write w2 (calls w2) (points c1) of
                  Some err \<Rightarrow> Returns (c1, w2)
                | None \<Rightarrow> Returns (c1\<lparr>lastSync := now w2, points := []\<rparr>, w2))))"

subsection \<open>Sample data\<close>

text \<open>
  Concrete inputs on which the theorems below are instantiated: a codec that reverses the
  string, a client that has no session yet, and a world on Linux with umask 022, no
  token file, no fault, endpoints that cannot be reached and a sink that accepts.
\<close>

definition sample_codec :: codec where
  "sample_codec = \<lparr>TokenEncrypt = rev, TokenDecrypt = rev\<rparr>"

definition sample_tado :: Tado where
  "sample_tado =
     \<lparr>Username = ''user'', password = ''secret'', refreshTokenPath = ''gotadoflux.token'',
      accessToken = [], expires = 0, refresh = 0\<rparr>"

definition sample_world :: world where
  "sample_world =
     \<lparr>now = 0, GOOS = ''linux'', umask = 18, files = Map.empty,
      stat_fault = (\<lambda>_. False), read_fault = (\<lambda>_. False), write_fault = (\<lambda>_. False),
      token_endpoint = (\<lambda>_ _. None), api_me = (\<lambda>_ _. None),
      api_zoneStates = (\<lambda>_ _ _. None), api_zones = (\<lambda>_ _ _. None),
      influx_NewBatchPoints = None, influx_Write = (\<lambda>_ _. None), calls = []\<rparr>"

text \<open>A token file as the main function creates it: mode 0600.\<close>

definition token_file :: "time \<Rightarrow> string \<Rightarrow> FileInfo" where
  "token_file mtime s = \<lparr>Mode = mode_0600, ModTime = mtime, Contents = s\<rparr>"

text \<open>An answer of the token endpoint that grants a session of 600 seconds.\<close>

definition granted :: token_response where
  "granted =
     \<lparr>token_StatusCode = 200,
      token_tadoError = \<lparr>Error = [], Description = []\<rparr>,
      token_tokens = \<lparr>access_token = ''access'', token_type = ''bearer'', refresh_token = ''renewal'',
                      expires_in = 600, scope = ''home.user'', jti = []\<rparr>\<rparr>"

text \<open>
  Scenario A of the specification: home 1 "Home" with zone 10 "Lounge"; the state reports
  21.5 degrees at T = 100 s, 45 percent humidity and 30 percent heating power; the
  watermark is 0. The process has just started: no session, an empty token file, an empty
  zone cache.
\<close>

definition scenarioA_state :: ZoneState where
  "scenarioA_state =
     \<lparr>SensorDataPoints =
        \<lparr>InsideTemperature = Some \<lparr>Celsius = Some 21.5, Temperature_Timestamp = Some 100000000000\<rparr>,
         Humidity = Some \<lparr>Humidity_Percentage = Some 45, Humidity_Timestamp = Some 100000000000\<rparr>\<rparr>,
      ActivityDataPoints =
        \<lparr>AcPower = None,
         HeatingPower = Some \<lparr>HeatingPower_Percentage = Some 30, HeatingPower_Timestamp = Some 100000000000\<rparr>\<rparr>\<rparr>"

definition scenarioA_world :: world where
  "scenarioA_world =
     sample_world
       \<lparr>now := 200000000000,
        files := [''gotadoflux.token'' \<mapsto> token_file 0 []],
        token_endpoint := (\<lambda>_ _. Some granted),
        api_zoneStates := (\<lambda>_ bearer id'.
           if bearer = ''access'' \<and> id' = 1 then
             Some \<lparr>StatusCode = 200, as_TadoError = Decoded \<lparr>Error = [], Description = []\<rparr>,
                   as_value = Some \<lparr>ZoneStates = [(''10'', scenarioA_state)]\<rparr>\<rparr>
           else None),
        api_zones := (\<lambda>_ bearer id'.
           if bearer = ''access'' \<and> id' = 1 then
             Some \<lparr>StatusCode = 200, as_TadoError = Decoded \<lparr>Error = [], Description = []\<rparr>,
                   as_value = Some [\<lparr>Zone_Id = 10, Zone_Name = ''Lounge''\<rparr>]\<rparr>
           else None)\<rparr>"

definition scenarioA_collector :: collector where
  "scenarioA_collector =
     \<lparr>Collect = [\<lparr>Home_Id = 1, Home_Name = ''Home''\<rparr>], tadoclient = sample_tado,
      zones = Map.empty, points = [], lastSync = 0\<rparr>"

text \<open>An answer of the token endpoint that refuses the grant.\<close>

definition rejected :: token_response where
  "rejected =
     \<lparr>token_StatusCode = 400,
      token_tadoError = \<lparr>Error = ''invalid_grant'', Description = ''invalid_grant''\<rparr>,
      token_tokens = \<lparr>access_token = [], token_type = [], refresh_token = [],
                      expires_in = 0, scope = [], jti = []\<rparr>\<rparr>"

text \<open>A session past its renewal instant (50) that expires at 100.\<close>

definition expiring_tado :: Tado where
  "expiring_tado = sample_tado\<lparr>accessToken := ''access'', refresh := 50, expires := 100\<rparr>"

text \<open>A world with a stored credential whose token endpoint refuses every grant.\<close>

definition rejecting_world :: world where
  "rejecting_world =
     sample_world\<lparr>files := [''gotadoflux.token'' \<mapsto> token_file 0 ''nekot''],
                  token_endpoint := (\<lambda>_ _. Some rejected)\<rparr>"

text \<open>A world with a stored credential whose token endpoint grants a session.\<close>

definition renewing_world :: world where
  "renewing_world =
     sample_world\<lparr>files := [''gotadoflux.token'' \<mapsto> token_file 0 ''nekot''],
                  token_endpoint := (\<lambda>_ _. Some granted)\<rparr>"

text \<open>A session that is valid until 300 and an answer of \<^verbatim>\<open>/me\<close> listing the homes given.\<close>

definition session_tado :: Tado where
  "session_tado = sample_tado\<lparr>accessToken := ''access'', refresh := 300, expires := 600\<rparr>"

definition me_response :: "Home option list \<Rightarrow> MeResponse response" where
  "me_response hs =
     \<lparr>StatusCode = 200, as_TadoError = Decoded \<lparr>Error = [], Description = []\<rparr>,
      as_value = Some \<lparr>Homes = hs\<rparr>\<rparr>"

text \<open>The collector of scenario A with no home configured.\<close>

definition idle_collector :: collector where
  "idle_collector = scenarioA_collector\<lparr>Collect := []\<rparr>"

text \<open>The home of scenario A.\<close>

definition lounge_home :: Home where
  "lounge_home = \<lparr>Home_Id = 1, Home_Name = ''Home''\<rparr>"

text \<open>
  Scenario C of the specification: the cache of home 1 knows zone 10 and the states
  report the zones 10 and 99; a second home is configured after it. The answers of the
  topology endpoint: the two zones; status 401 with a description; status 401 with the
  JSON value \<^verbatim>\<open>null\<close> as its body.
\<close>

definition scenarioC_states :: "ZoneStatesResponse response" where
  "scenarioC_states =
     \<lparr>StatusCode = 200, as_TadoError = Decoded \<lparr>Error = [], Description = []\<rparr>,
      as_value = Some \<lparr>ZoneStates = [(''10'', scenarioA_state), (''99'', scenarioA_state)]\<rparr>\<rparr>"

definition zones_answer :: "Zone list response" where
  "zones_answer =
     \<lparr>StatusCode = 200, as_TadoError = Decoded \<lparr>Error = [], Description = []\<rparr>,
      as_value = Some [\<lparr>Zone_Id = 10, Zone_Name = ''Lounge''\<rparr>, \<lparr>Zone_Id = 99, Zone_Name = ''Attic''\<rparr>]\<rparr>"

definition denied_answer :: "Zone list response" where
  "denied_answer =
     \<lparr>StatusCode = 401, as_TadoError = Decoded \<lparr>Error = ''unauthorized'', Description = ''denied''\<rparr>,
      as_value = None\<rparr>"

definition null_answer :: "Zone list response" where
  "null_answer = \<lparr>StatusCode = 401, as_TadoError = DecodeNull, as_value = Some []\<rparr>"

definition scenarioC_world :: "Zone list response \<Rightarrow> world" where
  "scenarioC_world answer =
     scenarioA_world\<lparr>api_zoneStates := (\<lambda>_ _ _. Some scenarioC_states),
                     api_zones := (\<lambda>_ _ _. Some answer)\<rparr>"

definition scenarioC_collector :: collector where
  "scenarioC_collector =
     scenarioA_collector
       \<lparr>Collect := [lounge_home, \<lparr>Home_Id = 2, Home_Name = ''Cabin''\<rparr>],
        zones := [1 \<mapsto> [''10'' \<mapsto> ''Lounge'']]\<rparr>"

section \<open>Properties\<close>

lemma freshness_window:
  "sint (180 * 25 * Hour) = 16200000000000000" "sint (4500 * Hour) = 16200000000000000"
  by (simp_all add: Hour_def Second_def)

subsection \<open>The credential store\<close>

text \<open>
  Claim C2, as the code has it. \<^verbatim>\<open>GetRefreshToken\<close> returns the empty string and no
  error ("not found") for a token file that is older than 180 times 25 hours
  (16200000000000000 nanoseconds) or that is empty. It returns an error, not "not found",
  for a file that does not exist (the error of \<^verbatim>\<open>os.Stat\<close>) and, on a platform other
  than windows, for a file whose mode is not 0600; a read that fails returns an error
  as well.
\<close>

theorem GetRefreshToken_cases:
  "(files w (refreshTokenPath t) = None \<longrightarrow> (\<exists>err. GetRefreshToken cd t w = Inl err))
 \<and> (Stat w (refreshTokenPath t) = Inr fileInfo \<and> Mode fileInfo \<noteq> mode_0600 \<and> GOOS w \<noteq> ''windows'' \<longrightarrow>
      GetRefreshToken cd t w = Inl (Errorf ''refresh token cache is not properly protected''))
 \<and> (Stat w (refreshTokenPath t) = Inr fileInfo \<and> (Mode fileInfo = mode_0600 \<or> GOOS w = ''windows'') \<and>
      ModTime fileInfo + 16200000000000000 < now w \<longrightarrow>
      GetRefreshToken cd t w = Inr [])
 \<and> (Stat w (refreshTokenPath t) = Inr fileInfo \<and> (Mode fileInfo = mode_0600 \<or> GOOS w = ''windows'') \<and>
      Contents fileInfo = [] \<longrightarrow>
      GetRefreshToken cd t w = Inr [])
 \<and> (Stat w (refreshTokenPath t) = Inr fileInfo \<and> (Mode fileInfo = mode_0600 \<or> GOOS w = ''windows'') \<and>
      now w \<le> ModTime fileInfo + 16200000000000000 \<and> Contents fileInfo \<noteq> [] \<and>
      read_fault w (refreshTokenPath t) \<longrightarrow>
      GetRefreshToken cd t w = Inl IOError)"
proof (intro conjI impI)
  assume "files w (refreshTokenPath t) = None"
  then show "\<exists>err. GetRefreshToken cd t w = Inl err"
    by (simp add: GetRefreshToken_def Stat_def)
next
  assume "Stat w (refreshTokenPath t) = Inr fileInfo \<and> Mode fileInfo \<noteq> mode_0600 \<and> GOOS w \<noteq> ''windows''"
  then show "GetRefreshToken cd t w = Inl (Errorf ''refresh token cache is not properly protected'')"
    by (simp add: GetRefreshToken_def)
next
  assume "Stat w (refreshTokenPath t) = Inr fileInfo \<and> (Mode fileInfo = mode_0600 \<or> GOOS w = ''windows'') \<and>
      ModTime fileInfo + 16200000000000000 < now w"
  then show "GetRefreshToken cd t w = Inr []"
    by (auto simp add: GetRefreshToken_def Before_def Add_def freshness_window)
next
  assume "Stat w (refreshTokenPath t) = Inr fileInfo \<and> (Mode fileInfo = mode_0600 \<or> GOOS w = ''windows'') \<and>
      Contents fileInfo = []"
  then show "GetRefreshToken cd t w = Inr []"
    by (auto simp add: GetRefreshToken_def)
next
  assume "Stat w (refreshTokenPath t) = Inr fileInfo \<and> (Mode fileInfo = mode_0600 \<or> GOOS w = ''windows'') \<and>
      now w \<le> ModTime fileInfo + 16200000000000000 \<and> Contents fileInfo \<noteq> [] \<and>
      read_fault w (refreshTokenPath t)"
  then show "GetRefreshToken cd t w = Inl IOError"
    by (auto simp add: GetRefreshToken_def Before_def Add_def freshness_window ReadFile_def)
qed

text \<open>
  Against claim C2 as stated: with no file at the path, \<^verbatim>\<open>GetRefreshToken\<close> returns the
  error of \<^verbatim>\<open>os.Stat\<close>.
\<close>

theorem GetRefreshToken_missing_file_counterexample:
  "files sample_world (refreshTokenPath sample_tado) = None
   \<and> GetRefreshToken sample_codec sample_tado sample_world = Inl ErrNotExist"
  by (simp add: GetRefreshToken_def Stat_def sample_world_def sample_tado_def)

text \<open>The five cases on sample worlds: no file, mode 0644, a stale file, an empty file, a failing read.\<close>

theorem GetRefreshToken_cases_witness:
  "GetRefreshToken sample_codec sample_tado sample_world = Inl ErrNotExist
 \<and> GetRefreshToken sample_codec sample_tado
      (sample_world\<lparr>files := [''gotadoflux.token'' \<mapsto> (token_file 0 ''nekot'')\<lparr>Mode := 420\<rparr>]\<rparr>)
      = Inl (Errorf ''refresh token cache is not properly protected'')
 \<and> GetRefreshToken sample_codec sample_tado
      (sample_world\<lparr>now := 16200000000000001, files := [''gotadoflux.token'' \<mapsto> token_file 0 ''nekot'']\<rparr>)
      = Inr []
 \<and> GetRefreshToken sample_codec sample_tado
      (sample_world\<lparr>files := [''gotadoflux.token'' \<mapsto> token_file 0 []]\<rparr>)
      = Inr []
 \<and> GetRefreshToken sample_codec sample_tado
      (sample_world\<lparr>files := [''gotadoflux.token'' \<mapsto> token_file 0 ''nekot''],
                    read_fault := (\<lambda>_. True)\<rparr>)
      = Inl IOError"
proof -
  let ?p = "''gotadoflux.token''"
  have a: "\<exists>err. GetRefreshToken sample_codec sample_tado sample_world = Inl err"
    using GetRefreshToken_cases [where w = sample_world and t = sample_tado and cd = sample_codec]
    by (simp add: sample_world_def sample_tado_def)
  have a': "GetRefreshToken sample_codec sample_tado sample_world = Inl ErrNotExist"
    using a by (auto simp add: GetRefreshToken_def Stat_def sample_world_def sample_tado_def)
  have b: "GetRefreshToken sample_codec sample_tado
      (sample_world\<lparr>files := [?p \<mapsto> (token_file 0 ''nekot'')\<lparr>Mode := 420\<rparr>]\<rparr>)
      = Inl (Errorf ''refresh token cache is not properly protected'')"
    using GetRefreshToken_cases [where w = "sample_world\<lparr>files := [?p \<mapsto> (token_file 0 ''nekot'')\<lparr>Mode := 420\<rparr>]\<rparr>"
        and t = sample_tado and fileInfo = "(token_file 0 ''nekot'')\<lparr>Mode := 420\<rparr>" and cd = sample_codec]
    by (simp add: sample_world_def sample_tado_def token_file_def Stat_def mode_0600_def)
  have c: "GetRefreshToken sample_codec sample_tado
      (sample_world\<lparr>now := 16200000000000001, files := [?p \<mapsto> token_file 0 ''nekot'']\<rparr>) = Inr []"
    using GetRefreshToken_cases [where w = "sample_world\<lparr>now := 16200000000000001, files := [?p \<mapsto> token_file 0 ''nekot'']\<rparr>"
        and t = sample_tado and fileInfo = "token_file 0 ''nekot''" and cd = sample_codec]
    by (simp add: sample_world_def sample_tado_def token_file_def Stat_def)
  have d: "GetRefreshToken sample_codec sample_tado
      (sample_world\<lparr>files := [?p \<mapsto> token_file 0 []]\<rparr>) = Inr []"
    using GetRefreshToken_cases [where w = "sample_world\<lparr>files := [?p \<mapsto> token_file 0 []]\<rparr>"
        and t = sample_tado and fileInfo = "token_file 0 []" and cd = sample_codec]
    by (simp add: sample_world_def sample_tado_def token_file_def Stat_def)
  have e: "GetRefreshToken sample_codec sample_tado
      (sample_world\<lparr>files := [?p \<mapsto> token_file 0 ''nekot''], read_fault := (\<lambda>_. True)\<rparr>) = Inl IOError"
    using GetRefreshToken_cases [where w = "sample_world\<lparr>files := [?p \<mapsto> token_file 0 ''nekot''], read_fault := (\<lambda>_. True)\<rparr>"
        and t = sample_tado and fileInfo = "token_file 0 ''nekot''" and cd = sample_codec]
    by (simp add: sample_world_def sample_tado_def token_file_def Stat_def)
  from a' b c d e show ?thesis by simp
qed

lemma SaveRefreshToken_world:
  "SaveRefreshToken cd t token w = (r, w') \<Longrightarrow>
     now w' = now w \<and> GOOS w' = GOOS w \<and> calls w' = calls w \<and> stat_fault w' = stat_fault w"
  by (auto simp add: SaveRefreshToken_def WriteFile_def Let_def split: if_splits sum.splits)

lemma SaveRefreshToken_file:
  "SaveRefreshToken cd t token w = (None, w') \<Longrightarrow>
     token \<noteq> [] \<and>
     files w' (refreshTokenPath t) =
       Some (case files w (refreshTokenPath t) of
               None \<Rightarrow> \<lparr>Mode = mode_0666 AND NOT (umask w), ModTime = now w, Contents = TokenEncrypt cd token\<rparr>
             | Some f \<Rightarrow> f\<lparr>ModTime := now w, Contents := TokenEncrypt cd token\<rparr>)"
  by (auto simp add: SaveRefreshToken_def WriteFile_def Let_def split: if_splits sum.splits)

text \<open>
  Claim C5, as the code has it. \<^verbatim>\<open>SaveRefreshToken\<close> writes with permission 0666: a file
  that exists keeps its mode, a file that does not is created with 0666 less the umask.
  When the token file exists with mode 0600 at the time of the save (the main function
  creates it so before the first cycle), or is created under a umask that leaves 0600, or
  the platform is windows, then a save that succeeds is read back by
  \<^verbatim>\<open>GetRefreshToken\<close>, up to 180 times 25 hours later and with no fault of the file
  system, as exactly the secret saved. The codec is a parameter: it is taken to decode
  what it encodes and to encode the secret as a non-empty string.
\<close>

theorem SaveRefreshToken_GetRefreshToken:
  assumes "token \<noteq> []"
    and "SaveRefreshToken cd t token w = (None, w')"
    and "TokenDecrypt cd (TokenEncrypt cd token) = token"
    and "TokenEncrypt cd token \<noteq> []"
    and "GOOS w = ''windows'' \<or>
         (case files w (refreshTokenPath t) of
            None \<Rightarrow> mode_0666 AND NOT (umask w) = mode_0600
          | Some f \<Rightarrow> Mode f = mode_0600)"
    and "files w'' (refreshTokenPath t) = files w' (refreshTokenPath t)"
    and "GOOS w'' = GOOS w"
    and "\<not> stat_fault w'' (refreshTokenPath t)"
    and "\<not> read_fault w'' (refreshTokenPath t)"
    and "now w'' \<le> now w + 16200000000000000"
  shows "GetRefreshToken cd t w'' = Inr token \<and> HasRefreshToken t w''"
proof -
  from assms(2) have f: "files w' (refreshTokenPath t) =
       Some (case files w (refreshTokenPath t) of
               None \<Rightarrow> \<lparr>Mode = mode_0666 AND NOT (umask w), ModTime = now w, Contents = TokenEncrypt cd token\<rparr>
             | Some f \<Rightarrow> f\<lparr>ModTime := now w, Contents := TokenEncrypt cd token\<rparr>)"
    by (simp add: SaveRefreshToken_file)
  obtain fi where fi: "files w'' (refreshTokenPath t) = Some fi"
    and m: "ModTime fi = now w" and c: "Contents fi = TokenEncrypt cd token"
    and md: "GOOS w = ''windows'' \<or> Mode fi = mode_0600"
    using f assms(5,6) by (cases "files w (refreshTokenPath t)") auto
  have st: "Stat w'' (refreshTokenPath t) = Inr fi"
    using fi assms(8) by (simp add: Stat_def)
  have rd: "ReadFile w'' (refreshTokenPath t) = Inr (TokenEncrypt cd token)"
    using fi c assms(9) by (simp add: ReadFile_def)
  have fresh: "\<not> Before (Add (ModTime fi) (180 * 25 * Hour)) (now w'')"
    using m assms(10) by (simp add: Before_def Add_def Hour_def Second_def)
  show ?thesis
    using st rd fresh md c assms(3,4,7)
    by (auto simp add: GetRefreshToken_def HasRefreshToken_def)
qed

text \<open>
  Against claim C5 as stated: on a path with no file and under umask 022 the save
  succeeds and creates a file of mode 0644, which \<^verbatim>\<open>GetRefreshToken\<close> refuses.
\<close>

theorem SaveRefreshToken_new_file_counterexample:
  "fst (SaveRefreshToken sample_codec sample_tado ''renewal'' sample_world) = None
   \<and> GetRefreshToken sample_codec sample_tado
        (snd (SaveRefreshToken sample_codec sample_tado ''renewal'' sample_world))
      = Inl (Errorf ''refresh token cache is not properly protected'')"
  by (simp add: SaveRefreshToken_def WriteFile_def GetRefreshToken_def Stat_def
      sample_codec_def sample_tado_def sample_world_def mode_0666_def mode_0600_def Let_def)

text \<open>The round trip on the token file that the main function has created.\<close>

theorem SaveRefreshToken_GetRefreshToken_witness:
  "SaveRefreshToken sample_codec sample_tado ''renewal''
      (sample_world\<lparr>files := [''gotadoflux.token'' \<mapsto> token_file 0 []]\<rparr>)
    = (None, sample_world\<lparr>files := [''gotadoflux.token'' \<mapsto> token_file 0 ''lawener'']\<rparr>)
   \<and> GetRefreshToken sample_codec sample_tado
        (sample_world\<lparr>files := [''gotadoflux.token'' \<mapsto> token_file 0 ''lawener''], now := 1000\<rparr>)
      = Inr ''renewal''
   \<and> HasRefreshToken sample_tado
        (sample_world\<lparr>files := [''gotadoflux.token'' \<mapsto> token_file 0 ''lawener''], now := 1000\<rparr>)"
proof -
  let ?w = "sample_world\<lparr>files := [''gotadoflux.token'' \<mapsto> token_file 0 []]\<rparr>"
  let ?w' = "sample_world\<lparr>files := [''gotadoflux.token'' \<mapsto> token_file 0 ''lawener'']\<rparr>"
  have s: "SaveRefreshToken sample_codec sample_tado ''renewal'' ?w = (None, ?w')"
    by (simp add: SaveRefreshToken_def WriteFile_def sample_codec_def sample_tado_def
        sample_world_def token_file_def Let_def)
  have "GetRefreshToken sample_codec sample_tado (?w'\<lparr>now := 1000\<rparr>) = Inr ''renewal''
      \<and> HasRefreshToken sample_tado (?w'\<lparr>now := 1000\<rparr>)"
    by (rule SaveRefreshToken_GetRefreshToken [where w = ?w and w' = ?w', OF _ s])
      (simp_all add: sample_codec_def sample_tado_def sample_world_def token_file_def)
  with s show ?thesis by simp
qed

subsection \<open>AuthCheck\<close>

lemma AquireToken_fails:
  "AquireToken cd t w = (Some err, t', w') \<Longrightarrow> t' = t \<and> now w' = now w"
  by (auto simp add: AquireToken_def Let_def split: option.splits if_splits prod.splits
      dest: SaveRefreshToken_world)

lemma RefreshToken_fails:
  "RefreshToken cd t w = (Some err, t', w') \<Longrightarrow> t' = t \<and> now w' = now w"
  by (auto simp add: RefreshToken_def Let_def split: option.splits if_splits prod.splits sum.splits
      dest: SaveRefreshToken_world)

lemma AuthCheck_rest_session:
  "accessToken t \<noteq> [] \<Longrightarrow> AuthCheck_rest cd t w = (None, t, w)"
  by (simp add: AuthCheck_rest_def)

text \<open>
  Claim C3, as the code has it. The session needs renewal (there is an access token and
  now is at or past the renewal instant) and the attempt that \<^verbatim>\<open>AuthCheck\<close> makes
  (\<^verbatim>\<open>RefreshToken\<close> when there is a stored credential, \<^verbatim>\<open>AquireToken\<close> otherwise) fails.
  While now is not after the expiry, the failure is swallowed: \<^verbatim>\<open>AuthCheck\<close> returns no
  error and leaves the session as it was. Once now is strictly after the expiry, the
  error of the attempt is returned. At the instant of expiry itself the failure is
  still swallowed: the test is \<^verbatim>\<open>t.expires.Before(time.Now())\<close>.
\<close>

theorem AuthCheck_renewal_fails:
  assumes "accessToken t \<noteq> []"
    and "refresh t \<le> now w"
    and "(if HasRefreshToken t w then RefreshToken cd t w else AquireToken cd t w) = (Some err, t', w')"
  shows "(now w \<le> expires t \<longrightarrow> AuthCheck cd t w = (None, t, w'))
       \<and> (expires t < now w \<longrightarrow> AuthCheck cd t w = (Some err, t, w'))"
proof -
  from assms(3) have same: "t' = t \<and> now w' = now w"
    by (auto split: if_splits dest: AquireToken_fails RefreshToken_fails)
  show ?thesis
    using assms same
    by (auto simp add: AuthCheck_def After_def Before_def AuthCheck_rest_session split: if_splits)
qed

lemma rejecting_world_RefreshToken:
  "HasRefreshToken expiring_tado (rejecting_world\<lparr>now := n\<rparr>) = (n \<le> 16200000000000000)"
  "RefreshToken sample_codec expiring_tado (rejecting_world\<lparr>now := 100\<rparr>)
    = (Some (Errorf ''could not get token: invalid_grant''), expiring_tado,
       rejecting_world\<lparr>now := 100, calls := [Call_RefreshToken]\<rparr>)"
  "RefreshToken sample_codec expiring_tado (rejecting_world\<lparr>now := 60\<rparr>)
    = (Some (Errorf ''could not get token: invalid_grant''), expiring_tado,
       rejecting_world\<lparr>now := 60, calls := [Call_RefreshToken]\<rparr>)"
  "RefreshToken sample_codec expiring_tado (rejecting_world\<lparr>now := 101\<rparr>)
    = (Some (Errorf ''could not get token: invalid_grant''), expiring_tado,
       rejecting_world\<lparr>now := 101, calls := [Call_RefreshToken]\<rparr>)"
  by (auto simp add: RefreshToken_def HasRefreshToken_def GetRefreshToken_def Stat_def ReadFile_def
      Before_def Add_def Hour_def Second_def Let_def
      expiring_tado_def rejecting_world_def sample_tado_def sample_world_def sample_codec_def
      token_file_def rejected_def)

text \<open>
  Against claim C3 as stated: now equals the expiry, the refresh is refused with
  \<^verbatim>\<open>invalid_grant\<close>, and \<^verbatim>\<open>AuthCheck\<close> returns no error.
\<close>

theorem AuthCheck_at_expiry_counterexample:
  "expires expiring_tado \<le> now (rejecting_world\<lparr>now := 100\<rparr>)
   \<and> fst (RefreshToken sample_codec expiring_tado (rejecting_world\<lparr>now := 100\<rparr>))
       = Some (Errorf ''could not get token: invalid_grant'')
   \<and> fst (AuthCheck sample_codec expiring_tado (rejecting_world\<lparr>now := 100\<rparr>)) = None"
  by (simp add: AuthCheck_def AuthCheck_rest_def rejecting_world_RefreshToken After_def Before_def)
    (simp add: expiring_tado_def)

text \<open>The refused refresh before the expiry (now = 60) and after it (now = 101).\<close>

theorem AuthCheck_renewal_fails_witness:
  "AuthCheck sample_codec expiring_tado (rejecting_world\<lparr>now := 60\<rparr>)
     = (None, expiring_tado, rejecting_world\<lparr>now := 60, calls := [Call_RefreshToken]\<rparr>)
   \<and> AuthCheck sample_codec expiring_tado (rejecting_world\<lparr>now := 101\<rparr>)
     = (Some (Errorf ''could not get token: invalid_grant''), expiring_tado,
        rejecting_world\<lparr>now := 101, calls := [Call_RefreshToken]\<rparr>)"
proof -
  have t: "accessToken expiring_tado \<noteq> []" "refresh expiring_tado = 50" "expires expiring_tado = 100"
    by (simp_all add: expiring_tado_def)
  have a: "AuthCheck sample_codec expiring_tado (rejecting_world\<lparr>now := 60\<rparr>)
     = (None, expiring_tado, rejecting_world\<lparr>now := 60, calls := [Call_RefreshToken]\<rparr>)"
    using AuthCheck_renewal_fails [where t = expiring_tado and w = "rejecting_world\<lparr>now := 60\<rparr>"
        and cd = sample_codec and err = "Errorf ''could not get token: invalid_grant''"
        and t' = expiring_tado and w' = "rejecting_world\<lparr>now := 60, calls := [Call_RefreshToken]\<rparr>"]
    by (simp add: t rejecting_world_RefreshToken)
  have b: "AuthCheck sample_codec expiring_tado (rejecting_world\<lparr>now := 101\<rparr>)
     = (Some (Errorf ''could not get token: invalid_grant''), expiring_tado,
        rejecting_world\<lparr>now := 101, calls := [Call_RefreshToken]\<rparr>)"
    using AuthCheck_renewal_fails [where t = expiring_tado and w = "rejecting_world\<lparr>now := 101\<rparr>"
        and cd = sample_codec and err = "Errorf ''could not get token: invalid_grant''"
        and t' = expiring_tado and w' = "rejecting_world\<lparr>now := 101, calls := [Call_RefreshToken]\<rparr>"]
    by (simp add: t rejecting_world_RefreshToken)
  from a b show ?thesis by simp
qed

lemma calls_AquireToken:
  "AquireToken cd t w = (r, t', w') \<Longrightarrow> calls w' = calls w @ [Call_AquireToken]"
  by (auto simp add: AquireToken_def Let_def split: option.splits if_splits prod.splits
      dest: SaveRefreshToken_world)

lemma calls_RefreshToken:
  "RefreshToken cd t w = (r, t', w') \<Longrightarrow> calls w' = calls w @ [Call_RefreshToken]"
  by (auto simp add: RefreshToken_def Let_def split: option.splits if_splits prod.splits sum.splits
      dest: SaveRefreshToken_world)

lemma HasRefreshToken_calls:
  "HasRefreshToken t (w\<lparr>calls := cs\<rparr>) = HasRefreshToken t w"
  by (simp add: HasRefreshToken_def Stat_def split: sum.splits option.splits)

lemma HasRefreshToken_after_save:
  assumes "HasRefreshToken t w"
    and "SaveRefreshToken cd t token w = (None, w')"
    and "TokenEncrypt cd token \<noteq> []"
    and "refreshTokenPath t' = refreshTokenPath t"
  shows "HasRefreshToken t' w'"
proof -
  from assms(1) obtain f where f: "files w (refreshTokenPath t) = Some f"
    and nf: "\<not> stat_fault w (refreshTokenPath t)"
    and md: "Mode f = mode_0600 \<or> GOOS w = ''windows''"
    by (auto simp add: HasRefreshToken_def Stat_def split: if_splits option.splits)
  from assms(2) have w': "now w' = now w" "GOOS w' = GOOS w" "stat_fault w' = stat_fault w"
    by (simp_all add: SaveRefreshToken_world)
  from assms(2) f have f': "files w' (refreshTokenPath t) =
      Some (f\<lparr>ModTime := now w, Contents := TokenEncrypt cd token\<rparr>)"
    by (simp add: SaveRefreshToken_file)
  show ?thesis
    using f' nf md w' assms(3,4)
    by (auto simp add: HasRefreshToken_def Stat_def Before_def Add_def Hour_def Second_def)
qed

lemma RefreshToken_succeeds:
  assumes "RefreshToken cd t w = (None, t', w')"
  shows "\<exists>tokens. HasRefreshToken t w
           \<and> SaveRefreshToken cd t (refresh_token tokens) (w\<lparr>calls := calls w @ [Call_RefreshToken]\<rparr>) = (None, w')
           \<and> t' = install_session t tokens w'"
  using assms
  by (simp add: RefreshToken_def Let_def HasRefreshToken_calls
      split: option.splits if_splits prod.splits sum.splits) blast

lemma RefreshToken_keeps_credential:
  assumes "RefreshToken cd t w = (None, t', w')"
    and "\<forall>s. s \<noteq> [] \<longrightarrow> TokenEncrypt cd s \<noteq> []"
  shows "HasRefreshToken t' w'"
proof -
  from assms(1) obtain tokens where h: "HasRefreshToken t w"
    and s: "SaveRefreshToken cd t (refresh_token tokens) (w\<lparr>calls := calls w @ [Call_RefreshToken]\<rparr>) = (None, w')"
    and t': "t' = install_session t tokens w'"
    using RefreshToken_succeeds by blast
  from s have "refresh_token tokens \<noteq> []"
    by (simp add: SaveRefreshToken_file)
  with assms(2) have ne: "TokenEncrypt cd (refresh_token tokens) \<noteq> []"
    by simp
  from h have h': "HasRefreshToken t (w\<lparr>calls := calls w @ [Call_RefreshToken]\<rparr>)"
    by (simp add: HasRefreshToken_calls)
  from t' have p: "refreshTokenPath t' = refreshTokenPath t"
    by (simp add: install_session_def)
  from h' s ne p show ?thesis
    by (rule HasRefreshToken_after_save)
qed

text \<open>
  Claim C8. When \<^verbatim>\<open>HasRefreshToken\<close> holds as \<^verbatim>\<open>AuthCheck\<close> is entered (a stored
  credential that is fresh and properly protected), none of the calls that
  \<^verbatim>\<open>AuthCheck\<close> makes is \<^verbatim>\<open>AquireToken\<close>: the password is used only when there is no
  usable stored credential. The codec is a parameter, taken to encode a non-empty
  secret as a non-empty string (the file a successful refresh leaves is then not empty).
\<close>

theorem AuthCheck_password_last:
  assumes "HasRefreshToken t w"
    and "\<forall>s. s \<noteq> [] \<longrightarrow> TokenEncrypt cd s \<noteq> []"
    and "AuthCheck cd t w = (r, t', w')"
  shows "\<exists>new. calls w' = calls w @ new \<and> Call_AquireToken \<notin> set new"
proof -
  have rest: "\<exists>new. calls w2 = calls w1 @ new \<and> Call_AquireToken \<notin> set new"
    if "HasRefreshToken t1 w1 \<or> accessToken t1 \<noteq> []" and "AuthCheck_rest cd t1 w1 = (r2, t2, w2)"
    for t1 w1 r2 t2 w2
    using that
    by (auto simp add: AuthCheck_rest_def Let_def split: if_splits prod.splits option.splits
        dest!: calls_RefreshToken)
  show ?thesis
  proof (cases "accessToken t = []")
    case True
    with assms rest [of t w r t' w'] show ?thesis
      by (simp add: AuthCheck_def)
  next
    case False
    show ?thesis
    proof (cases "After (refresh t) (now w)")
      case True
      with False assms(3) show ?thesis by (simp add: AuthCheck_def)
    next
      case notyet: False
      obtain r1 t1 w1 where R: "RefreshToken cd t w = (r1, t1, w1)"
        by (cases "RefreshToken cd t w") auto
      have c1: "calls w1 = calls w @ [Call_RefreshToken]"
        using R by (rule calls_RefreshToken)
      show ?thesis
      proof (cases "r1 \<noteq> None \<and> Before (expires t1) (now w1)")
        case True
        with False notyet assms(1,3) R c1 show ?thesis
          by (auto simp add: AuthCheck_def)
      next
        case go_on: False
        have A: "AuthCheck_rest cd t1 w1 = (r, t', w')"
          using False notyet assms(1,3) R go_on by (auto simp add: AuthCheck_def)
        have "HasRefreshToken t1 w1 \<or> accessToken t1 \<noteq> []"
        proof (cases r1)
          case None
          with R assms(2) show ?thesis by (auto dest: RefreshToken_keeps_credential)
        next
          case (Some e)
          with R have "t1 = t" by (auto dest: RefreshToken_fails)
          with False show ?thesis by simp
        qed
        from rest [OF this A] obtain new where "calls w' = calls w1 @ new" "Call_AquireToken \<notin> set new"
          by blast
        with c1 show ?thesis by simp
      qed
    qed
  qed
qed

text \<open>A first call of \<^verbatim>\<open>AuthCheck\<close> with a stored credential: it refreshes.\<close>

theorem AuthCheck_password_last_witness:
  "HasRefreshToken sample_tado renewing_world
   \<and> fst (AuthCheck sample_codec sample_tado renewing_world) = None
   \<and> Call_AquireToken \<notin> set (calls (snd (snd (AuthCheck sample_codec sample_tado renewing_world))))"
proof -
  have h: "HasRefreshToken sample_tado renewing_world"
    by (simp add: HasRefreshToken_def Stat_def Before_def Add_def Hour_def Second_def
        renewing_world_def sample_world_def sample_tado_def token_file_def)
  have c: "\<forall>s. s \<noteq> [] \<longrightarrow> TokenEncrypt sample_codec s \<noteq> []"
    by (simp add: sample_codec_def)
  obtain r t' w' where a: "AuthCheck sample_codec sample_tado renewing_world = (r, t', w')"
    by (cases "AuthCheck sample_codec sample_tado renewing_world") auto
  have e: "calls renewing_world = []"
    by (simp add: renewing_world_def sample_world_def)
  from AuthCheck_password_last [OF h c a] e have "Call_AquireToken \<notin> set (calls w')"
    by auto
  moreover have "fst (AuthCheck sample_codec sample_tado renewing_world) = None"
    by (simp add: AuthCheck_def AuthCheck_rest_def RefreshToken_def HasRefreshToken_def
        GetRefreshToken_def SaveRefreshToken_def WriteFile_def Stat_def ReadFile_def
        install_session_def Before_def Add_def Hour_def Second_def Let_def
        renewing_world_def sample_world_def sample_tado_def sample_codec_def token_file_def
        granted_def)
  ultimately show ?thesis using h a by simp
qed

subsection \<open>GetHome\<close>

text \<open>
  Claim C10. After a successful \<^verbatim>\<open>AuthCheck\<close> and an answer of \<^verbatim>\<open>/me\<close> below
  status 400 that decodes, \<^verbatim>\<open>GetHome\<close> returns the first element of the list of homes
  when there is one and panics (index out of range) when the list is empty; it has no
  error return for the empty list.
\<close>

theorem GetHome_first_home:
  assumes "AuthCheck cd t (w\<lparr>calls := calls w @ [Call_GetHome]\<rparr>) = (None, t', w')"
    and "api_me w' (calls w') (accessToken t') = Some response"
    and "StatusCode response div 100 < 4"
    and "as_value response = Some me"
  shows "(Homes me = [] \<longrightarrow> GetHome cd t w = Panics)
       \<and> (\<forall>home others. Homes me = home # others \<longrightarrow> GetHome cd t w = Returns (Inr home, t', w'))"
  using assms by (simp add: GetHome_def Let_def)

text \<open>An account with no home, and an account with one.\<close>

theorem GetHome_first_home_witness:
  "GetHome sample_codec session_tado (sample_world\<lparr>api_me := (\<lambda>_ _. Some (me_response []))\<rparr>) = Panics
   \<and> GetHome sample_codec session_tado
        (sample_world\<lparr>api_me := (\<lambda>_ _. Some (me_response [Some \<lparr>Home_Id = 1, Home_Name = ''Home''\<rparr>]))\<rparr>)
      = Returns (Inr (Some \<lparr>Home_Id = 1, Home_Name = ''Home''\<rparr>), session_tado,
                 sample_world\<lparr>api_me := (\<lambda>_ _. Some (me_response [Some \<lparr>Home_Id = 1, Home_Name = ''Home''\<rparr>])),
                              calls := [Call_GetHome]\<rparr>)"
proof -
  have a: "AuthCheck sample_codec session_tado (sample_world\<lparr>api_me := f, calls := [Call_GetHome]\<rparr>)
      = (None, session_tado, sample_world\<lparr>api_me := f, calls := [Call_GetHome]\<rparr>)" for f
    by (simp add: AuthCheck_def After_def session_tado_def sample_world_def sample_tado_def)
  have c: "calls sample_world = []"
    by (simp add: sample_world_def)
  have "GetHome sample_codec session_tado (sample_world\<lparr>api_me := (\<lambda>_ _. Some (me_response []))\<rparr>) = Panics"
    using GetHome_first_home [where cd = sample_codec and t = session_tado
        and w = "sample_world\<lparr>api_me := (\<lambda>_ _. Some (me_response []))\<rparr>"
        and t' = session_tado
        and w' = "sample_world\<lparr>api_me := (\<lambda>_ _. Some (me_response [])), calls := [Call_GetHome]\<rparr>"
        and response = "me_response []" and me = "\<lparr>Homes = []\<rparr>"]
    by (simp add: a c me_response_def)
  moreover have "GetHome sample_codec session_tado
        (sample_world\<lparr>api_me := (\<lambda>_ _. Some (me_response [Some \<lparr>Home_Id = 1, Home_Name = ''Home''\<rparr>]))\<rparr>)
      = Returns (Inr (Some \<lparr>Home_Id = 1, Home_Name = ''Home''\<rparr>), session_tado,
                 sample_world\<lparr>api_me := (\<lambda>_ _. Some (me_response [Some \<lparr>Home_Id = 1, Home_Name = ''Home''\<rparr>])),
                              calls := [Call_GetHome]\<rparr>)"
    using GetHome_first_home [where cd = sample_codec and t = session_tado
        and w = "sample_world\<lparr>api_me := (\<lambda>_ _. Some (me_response [Some \<lparr>Home_Id = 1, Home_Name = ''Home''\<rparr>]))\<rparr>"
        and t' = session_tado
        and w' = "sample_world\<lparr>api_me := (\<lambda>_ _. Some (me_response [Some \<lparr>Home_Id = 1, Home_Name = ''Home''\<rparr>])), calls := [Call_GetHome]\<rparr>"
        and response = "me_response [Some \<lparr>Home_Id = 1, Home_Name = ''Home''\<rparr>]"
        and me = "\<lparr>Homes = [Some \<lparr>Home_Id = 1, Home_Name = ''Home''\<rparr>]\<rparr>"]
    by (simp add: a c me_response_def)
  ultimately show ?thesis by simp
qed

subsection \<open>The collection cycle\<close>

text \<open>No call changes the clock.\<close>

lemma AquireToken_now:
  "AquireToken cd t w = (r, t', w') \<Longrightarrow> now w' = now w"
  by (auto simp add: AquireToken_def Let_def split: option.splits if_splits prod.splits
      dest: SaveRefreshToken_world)

lemma RefreshToken_now:
  "RefreshToken cd t w = (r, t', w') \<Longrightarrow> now w' = now w"
  by (auto simp add: RefreshToken_def Let_def split: option.splits if_splits prod.splits sum.splits
      dest: SaveRefreshToken_world)

lemma token_exchange_now:
  "now (snd (snd (AquireToken cd t w))) = now w"
  "now (snd (snd (RefreshToken cd t w))) = now w"
  by (cases "AquireToken cd t w", simp add: AquireToken_now,
      cases "RefreshToken cd t w", simp add: RefreshToken_now)

lemma AuthCheck_rest_now:
  "now (snd (snd (AuthCheck_rest cd t w))) = now w"
  by (simp add: AuthCheck_rest_def Let_def case_prod_unfold token_exchange_now split: option.splits)

lemma AuthCheck_now:
  "AuthCheck cd t w = (r, t', w') \<Longrightarrow> now w' = now w"
proof -
  have "now (snd (snd (AuthCheck cd t w))) = now w"
    by (simp add: AuthCheck_def case_prod_unfold token_exchange_now AuthCheck_rest_now)
  then show "AuthCheck cd t w = (r, t', w') \<Longrightarrow> now w' = now w"
    by simp
qed

lemma GetZoneStates_now:
  "GetZoneStates cd t i w = Returns (r, t', w') \<Longrightarrow> now w' = now w"
  by (auto simp add: GetZoneStates_def Let_def
      split: option.splits if_splits prod.splits outcome.splits
      dest: AuthCheck_now)

lemma GetZones_now:
  "GetZones cd t i w = Returns (r, t', w') \<Longrightarrow> now w' = now w"
  by (auto simp add: GetZones_def Let_def
      split: option.splits if_splits prod.splits outcome.splits
      dest: AuthCheck_now)


lemma zone_point_admits:
  assumes "zone_point home zs watermark zoneId state = Returns (Some point)"
  shows "(\<exists>temp. InsideTemperature (SensorDataPoints state) = Some temp
            \<and> Temperature_Timestamp temp = Some (Point_Time point))
         \<and> watermark \<le> Point_Time point"
  using assms
  by (auto simp add: zone_point_def Before_def Let_def split: option.splits if_splits outcome.splits)

lemma collect_states_appends:
  "collect_states home zs watermark sts ps = Returns ps' \<Longrightarrow>
     \<exists>new. ps' = ps @ new \<and> (\<forall>p \<in> set new. watermark \<le> Point_Time p)"
proof (induction sts arbitrary: ps)
  case Nil
  then show ?case by simp
next
  case (Cons a sts)
  obtain zoneId state where a: "a = (zoneId, state)" by (cases a)
  show ?case
  proof (cases "zone_point home zs watermark zoneId state")
    case Panics
    with Cons.prems a show ?thesis by simp
  next
    case (Returns r)
    show ?thesis
    proof (cases r)
      case None
      with Returns Cons a show ?thesis by simp
    next
      case (Some point)
      with Returns Cons.prems a
      have "collect_states home zs watermark sts (ps @ [point]) = Returns ps'" by simp
      from Cons.IH [OF this] obtain new where
        "ps' = (ps @ [point]) @ new" "\<forall>p \<in> set new. watermark \<le> Point_Time p" by blast
      moreover from Returns Some have "watermark \<le> Point_Time point"
        by (simp add: zone_point_admits)
      ultimately have "ps' = ps @ (point # new) \<and> (\<forall>p \<in> set (point # new). watermark \<le> Point_Time p)"
        by simp
      then show ?thesis by blast
    qed
  qed
qed

lemma collect_points_appends:
  assumes "collect_points home states c w = Returns (c', w')"
  shows "w' = w \<and> lastSync c' = lastSync c \<and> zones c' = zones c \<and> tadoclient c' = tadoclient c
       \<and> Collect c' = Collect c
       \<and> (\<exists>new. points c' = points c @ new \<and> (\<forall>p \<in> set new. lastSync c \<le> Point_Time p))"
  using assms
  by (auto simp add: collect_points_def split: outcome.splits dest: collect_states_appends)

lemma collect_home_appends:
  assumes "collect_home cd home c w = Returns (c', w')"
  shows "now w' = now w \<and> lastSync c' = lastSync c
       \<and> (\<exists>new. points c' = points c @ new \<and> (\<forall>p \<in> set new. lastSync c \<le> Point_Time p))"
proof (cases "GetZoneStates cd (tadoclient c) (Home_Id home) w")
  case Panics
  with assms show ?thesis by (simp add: collect_home_def)
next
  case (Returns x)
  obtain r t1 w1 where x: "x = (r, t1, w1)" by (cases x)
  from Returns x have n1: "now w1 = now w" by (simp add: GetZoneStates_now)
  show ?thesis
  proof (cases r)
    case (Inl err)
    with assms Returns x n1 show ?thesis by (auto simp add: collect_home_def)
  next
    case (Inr states)
    show ?thesis
    proof (cases "\<not> homefound c home \<or> \<not> allzonesfound c home states")
      case False
      with assms Returns x Inr
      have "collect_points home states (c\<lparr>tadoclient := t1\<rparr>) w1 = Returns (c', w')"
        by (simp add: collect_home_def)
      from collect_points_appends [OF this] n1 show ?thesis by simp
    next
      case True
      show ?thesis
      proof (cases "GetZones cd t1 (Home_Id home) w1")
        case Panics
        with assms Returns x Inr True show ?thesis by (simp add: collect_home_def)
      next
        case R2: (Returns y)
        obtain r2 t2 w2 where y: "y = (r2, t2, w2)" by (cases y)
        from R2 y n1 have n2: "now w2 = now w" by (simp add: GetZones_now)
        show ?thesis
        proof (cases r2)
          case (Inl err)
          with assms Returns x Inr True R2 y n2 show ?thesis by (auto simp add: collect_home_def)
        next
          case I2: (Inr newZones)
          with assms Returns x Inr True R2 y
          have "collect_points home states
                  (c\<lparr>tadoclient := t2, zones := (zones c)(Home_Id home \<mapsto> zone_names newZones)\<rparr>) w2
                = Returns (c', w')"
            by (simp add: collect_home_def)
          from collect_points_appends [OF this] n2 show ?thesis by simp
        qed
      qed
    qed
  qed
qed

lemma collect_homes_appends:
  "collect_homes cd homes c w = Returns (c', w') \<Longrightarrow>
     now w' = now w \<and> lastSync c' = lastSync c
     \<and> (\<exists>new. points c' = points c @ new \<and> (\<forall>p \<in> set new. lastSync c \<le> Point_Time p))"
proof (induction homes arbitrary: c w)
  case Nil
  then show ?case by simp
next
  case (Cons home homes)
  from Cons.prems obtain c1 w1 where
    h: "collect_home cd home c w = Returns (c1, w1)" and
    r: "collect_homes cd homes c1 w1 = Returns (c', w')"
    by (auto split: outcome.splits)
  from collect_home_appends [OF h] obtain new1 where
    1: "now w1 = now w" "lastSync c1 = lastSync c" "points c1 = points c @ new1"
       "\<forall>p \<in> set new1. lastSync c \<le> Point_Time p" by blast
  from Cons.IH [OF r] obtain new2 where
    2: "now w' = now w1" "lastSync c' = lastSync c1" "points c' = points c1 @ new2"
       "\<forall>p \<in> set new2. lastSync c1 \<le> Point_Time p" by blast
  from 1 2 have "points c' = points c @ (new1 @ new2) \<and> (\<forall>p \<in> set (new1 @ new2). lastSync c \<le> Point_Time p)"
    by auto
  with 1 2 show ?case by (metis)
qed


text \<open>The definitions that evaluate a cycle on the sample data.\<close>

lemmas cycle_defs = Stat_def ReadFile_def WriteFile_def mode_0600_def mode_0666_def
  SaveRefreshToken_def GetRefreshToken_def HasRefreshToken_def install_session_def
  AquireToken_def RefreshToken_def AuthCheck_rest_def AuthCheck_def error_of_response_def
  GetZoneStates_def GetZones_def Itoa_def digits.simps ToUpper_def ToUpper_byte_def
  zone_lookup_def powerPc_def zone_point_def zone_names_def homefound_def allzonesfound_def
  collect_points_def collect_home_def collect_def Add_def Before_def After_def Hour_def Second_def
  Let_def

lemmas scenarioA_defs = sample_codec_def sample_tado_def sample_world_def token_file_def granted_def
  scenarioA_state_def scenarioA_world_def scenarioA_collector_def



text \<open>
  Claim C4 on the code. The reading of scenario A, admitted past the watermark, with its
  humidity absent: line 98 dereferences the nil pointer and the loop body panics; so
  does line 80 for an AC indicator that is present with no value; and the cycle that
  receives the first of these states panics as a whole. With both the AC indicator and
  the heating power absent the point is built.
\<close>

theorem zone_point_missing_parts:
  "zone_point \<lparr>Home_Id = 1, Home_Name = ''Home''\<rparr> [1 \<mapsto> [''10'' \<mapsto> ''Lounge'']] 0 ''10''
      (scenarioA_state\<lparr>SensorDataPoints :=
         (SensorDataPoints scenarioA_state)\<lparr>Humidity := None\<rparr>\<rparr>) = Panics
   \<and> zone_point \<lparr>Home_Id = 1, Home_Name = ''Home''\<rparr> [1 \<mapsto> [''10'' \<mapsto> ''Lounge'']] 0 ''10''
      (scenarioA_state\<lparr>ActivityDataPoints :=
         \<lparr>AcPower = Some \<lparr>Value = None, AcPower_Timestamp = None\<rparr>, HeatingPower = None\<rparr>\<rparr>) = Panics
   \<and> collect sample_codec scenarioA_collector
        (scenarioA_world\<lparr>api_zoneStates := (\<lambda>_ _ _.
           Some \<lparr>StatusCode = 200, as_TadoError = Decoded \<lparr>Error = [], Description = []\<rparr>,
                 as_value = Some \<lparr>ZoneStates = [(''10'',
                   scenarioA_state\<lparr>SensorDataPoints :=
                     (SensorDataPoints scenarioA_state)\<lparr>Humidity := None\<rparr>\<rparr>)]\<rparr>\<rparr>)\<rparr>) = Panics
   \<and> (\<exists>point. zone_point \<lparr>Home_Id = 1, Home_Name = ''Home''\<rparr> [1 \<mapsto> [''10'' \<mapsto> ''Lounge'']] 0 ''10''
      (scenarioA_state\<lparr>ActivityDataPoints := \<lparr>AcPower = None, HeatingPower = None\<rparr>\<rparr>)
        = Returns (Some point))"
  by (simp add: cycle_defs scenarioA_defs)

text \<open>
  Claim C6. After the loop over the homes has left the batch \<open>points c1\<close>: when
  \<^verbatim>\<open>influx.Write\<close> returns an error, \<^verbatim>\<open>collect\<close> returns with the watermark unchanged
  and the batch retained; when it returns no error, whatever the batch (the empty one
  included), the watermark is now and the batch is empty.
\<close>

theorem collect_sink_outcome:
  assumes "collect_homes cd (Collect c) c w = Returns (c1, w1)"
    and "influx_NewBatchPoints w1 = None"
    and "w2 = w1\<lparr>calls := calls w1 @ [Call_Write (points c1)]\<rparr>"
  shows "(influx_Write w2 (calls w2) (points c1) = Some err \<longrightarrow>
            collect cd c w = Returns (c1, w2) \<and> lastSync c1 = lastSync c)
       \<and> (influx_Write w2 (calls w2) (points c1) = None \<longrightarrow>
            collect cd c w = Returns (c1\<lparr>lastSync := now w, points := []\<rparr>, w2))"
proof -
  from collect_homes_appends [OF assms(1)] have "now w1 = now w" "lastSync c1 = lastSync c"
    by simp_all
  with assms show ?thesis
    by (simp add: collect_def Let_def)
qed

text \<open>
  A sink that fails on the batch of scenario A, and a sink that accepts the empty batch
  of a cycle with no home.
\<close>

theorem collect_sink_outcome_witness:
  "(\<exists>c' w'. collect sample_codec scenarioA_collector
        (scenarioA_world\<lparr>influx_Write := (\<lambda>_ _. Some TransportError)\<rparr>) = Returns (c', w')
      \<and> lastSync c' = 0 \<and> map Point_Name (points c') = [''Home.Lounge''])
   \<and> (\<exists>w'. collect sample_codec idle_collector scenarioA_world
        = Returns (idle_collector\<lparr>lastSync := 200000000000, points := []\<rparr>, w'))"
proof -
  let ?w = "scenarioA_world\<lparr>influx_Write := (\<lambda>_ _. Some TransportError)\<rparr>"
  obtain c1 w1 where h: "collect_homes sample_codec (Collect scenarioA_collector) scenarioA_collector ?w
      = Returns (c1, w1)"
    and nb: "influx_NewBatchPoints w1 = None"
    and iw: "influx_Write w1 = (\<lambda>_ _. Some TransportError)"
    and pts: "map Point_Name (points c1) = [''Home.Lounge'']"
    by (simp add: cycle_defs scenarioA_defs)
  from collect_sink_outcome [OF h nb refl, of TransportError] iw
  have "collect sample_codec scenarioA_collector ?w
      = Returns (c1, w1\<lparr>calls := calls w1 @ [Call_Write (points c1)]\<rparr>)"
    and "lastSync c1 = 0"
    by (simp_all add: scenarioA_collector_def)
  with pts have A: "\<exists>c' w'. collect sample_codec scenarioA_collector ?w = Returns (c', w')
      \<and> lastSync c' = 0 \<and> map Point_Name (points c') = [''Home.Lounge'']"
    by (intro exI conjI)
  have h2: "collect_homes sample_codec (Collect idle_collector) idle_collector scenarioA_world
      = Returns (idle_collector, scenarioA_world)"
    by (simp add: idle_collector_def)
  have nb2: "influx_NewBatchPoints scenarioA_world = None"
    and iw2: "influx_Write scenarioA_world = (\<lambda>_ _. None)"
    and n2: "now scenarioA_world = 200000000000"
    by (simp_all add: scenarioA_world_def sample_world_def)
  from collect_sink_outcome [OF h2 nb2 refl, of TransportError] iw2 n2
  have "collect sample_codec idle_collector scenarioA_world
      = Returns (idle_collector\<lparr>lastSync := 200000000000, points := []\<rparr>,
                 scenarioA_world\<lparr>calls := calls scenarioA_world @ [Call_Write (points idle_collector)]\<rparr>)"
    by simp
  then have B: "\<exists>w'. collect sample_codec idle_collector scenarioA_world
        = Returns (idle_collector\<lparr>lastSync := 200000000000, points := []\<rparr>, w')"
    by (intro exI)
  from A B show ?thesis by (intro conjI)
qed

text \<open>
  Claim C9. One cycle of scenario A, from the start of the process and for any codec,
  hands the sink a batch of exactly one point: it is named \<^verbatim>\<open>Home.Lounge\<close>, its
  field power is 30, its tags homeId and zoneId are "1" and "10", its time is 100 s.
  The heating power wins over the AC indicator: with the indicator "ON" and a heating
  power of 30 the power is 30; without heating power the indicator alone gives 100 for
  "On" and 0 for "OFF".
\<close>

theorem scenarioA_one_measurement:
  "(case collect cd scenarioA_collector scenarioA_world of
      Panics \<Rightarrow> False
    | Returns (c, w) \<Rightarrow>
        (case last (calls w) of
           Call_Write batch \<Rightarrow>
             map Point_Name batch = [''Home.Lounge'']
             \<and> map (\<lambda>p. Fields p ''power'') batch = [Some 30]
             \<and> map (\<lambda>p. Tags p ''homeId'') batch = [Some ''1'']
             \<and> map (\<lambda>p. Tags p ''zoneId'') batch = [Some ''10'']
             \<and> map Point_Time batch = [100000000000]
         | _ \<Rightarrow> False))
   \<and> powerPc \<lparr>AcPower = Some \<lparr>Value = Some ''ON'', AcPower_Timestamp = ts\<rparr>,
               HeatingPower = Some \<lparr>HeatingPower_Percentage = Some 30, HeatingPower_Timestamp = ts'\<rparr>\<rparr>
       = Returns 30
   \<and> powerPc \<lparr>AcPower = Some \<lparr>Value = Some ''On'', AcPower_Timestamp = ts\<rparr>, HeatingPower = None\<rparr>
       = Returns 100
   \<and> powerPc \<lparr>AcPower = Some \<lparr>Value = Some ''OFF'', AcPower_Timestamp = ts\<rparr>, HeatingPower = None\<rparr>
       = Returns 0"
  by (simp add: cycle_defs scenarioA_defs)

text \<open>Only \<^verbatim>\<open>GetZones\<close> adds a topology fetch to the calls.\<close>

lemma token_exchange_calls:
  "calls (snd (snd (AquireToken cd t w))) = calls w @ [Call_AquireToken]"
  "calls (snd (snd (RefreshToken cd t w))) = calls w @ [Call_RefreshToken]"
  by (cases "AquireToken cd t w", simp add: calls_AquireToken,
      cases "RefreshToken cd t w", simp add: calls_RefreshToken)

lemma AuthCheck_rest_fetches:
  "count_list (calls (snd (snd (AuthCheck_rest cd t w)))) (Call_GetZones i)
     = count_list (calls w) (Call_GetZones i)"
  by (simp add: AuthCheck_rest_def Let_def case_prod_unfold token_exchange_calls split: option.splits)

lemma AuthCheck_fetches:
  "AuthCheck cd t w = (r, t', w') \<Longrightarrow>
     count_list (calls w') (Call_GetZones i) = count_list (calls w) (Call_GetZones i)"
proof -
  have "count_list (calls (snd (snd (AuthCheck cd t w)))) (Call_GetZones i)
      = count_list (calls w) (Call_GetZones i)"
    by (simp add: AuthCheck_def case_prod_unfold token_exchange_calls AuthCheck_rest_fetches)
  then show "AuthCheck cd t w = (r, t', w') \<Longrightarrow>
     count_list (calls w') (Call_GetZones i) = count_list (calls w) (Call_GetZones i)"
    by simp
qed

lemma GetZoneStates_fetches:
  "GetZoneStates cd t j w = Returns (r, t', w') \<Longrightarrow>
     count_list (calls w') (Call_GetZones i) = count_list (calls w) (Call_GetZones i)"
  by (auto simp add: GetZoneStates_def Let_def
      split: option.splits if_splits prod.splits outcome.splits
      dest!: AuthCheck_fetches [where i = i])

lemma GetZones_fetches:
  "GetZones cd t j w = Returns (r, t', w') \<Longrightarrow>
     count_list (calls w') (Call_GetZones i)
       = count_list (calls w) (Call_GetZones i) + (if i = j then 1 else 0)"
  by (auto simp add: GetZones_def Let_def
      split: option.splits if_splits prod.splits outcome.splits
      dest!: AuthCheck_fetches [where i = i])

text \<open>The test of line 56, on the cache entry itself.\<close>

lemma cache_stale:
  "(\<not> homefound c home \<or> \<not> allzonesfound c home states) \<longleftrightarrow>
     (case zones c (Home_Id home) of
        None \<Rightarrow> True
      | Some entry \<Rightarrow> \<exists>zoneId \<in> fst ` set (ZoneStates states). entry zoneId = None)"
proof (cases "zones c (Home_Id home)")
  case None
  then show ?thesis by (simp add: homefound_def)
next
  case (Some entry)
  then have "allzonesfound c home states \<longleftrightarrow>
      (\<forall>x \<in> set (ZoneStates states). entry (fst x) \<noteq> None)"
    by (simp add: allzonesfound_def homefound_def zone_lookup_def list_all_iff case_prod_unfold)
  with Some show ?thesis by (simp add: homefound_def)
qed

text \<open>
  Once the states of a home are fetched, the pass of the loop for that home calls
  \<^verbatim>\<open>GetZones\<close> for it once when the home has no cache entry or its entry lacks a zone
  id of the states, and not at all otherwise. A fetch that returns an error ends the
  pass with the cache and the batch as they were, and the loop goes on; a fetch that
  panics ends the loop.
\<close>

lemma collect_home_fetches:
  assumes "GetZoneStates cd (tadoclient c) (Home_Id home) w = Returns (Inr states, t1, w1)"
    and "stale = (case zones c (Home_Id home) of
                    None \<Rightarrow> True
                  | Some entry \<Rightarrow> \<exists>zoneId \<in> fst ` set (ZoneStates states). entry zoneId = None)"
  shows "(collect_home cd home c w = Returns (c', w') \<longrightarrow>
            count_list (calls w') (Call_GetZones (Home_Id home))
              = count_list (calls w) (Call_GetZones (Home_Id home)) + (if stale then 1 else 0))
       \<and> (stale \<and> GetZones cd t1 (Home_Id home) w1 = Returns (Inl err, t2, w2) \<longrightarrow>
            collect_home cd home c w = Returns (c\<lparr>tadoclient := t2\<rparr>, w2)
            \<and> collect_homes cd (home # homes) c w = collect_homes cd homes (c\<lparr>tadoclient := t2\<rparr>) w2)
       \<and> (stale \<and> GetZones cd t1 (Home_Id home) w1 = Panics \<longrightarrow>
            collect_home cd home c w = Panics
            \<and> collect_homes cd (home # homes) c w = Panics)"
proof (cases "\<not> homefound c home \<or> \<not> allzonesfound c home states")
  case False
  from False assms(2) have fresh: "\<not> stale"
    by (simp only: cache_stale [symmetric]) simp
  from assms(1) have f1: "count_list (calls w1) (Call_GetZones (Home_Id home))
      = count_list (calls w) (Call_GetZones (Home_Id home))"
    by (rule GetZoneStates_fetches)
  from False assms(1)
  have eq: "collect_home cd home c w = collect_points home states (c\<lparr>tadoclient := t1\<rparr>) w1"
    by (simp add: collect_home_def)
  have count: "count_list (calls w') (Call_GetZones (Home_Id home))
        = count_list (calls w) (Call_GetZones (Home_Id home)) + (if stale then 1 else 0)"
    if "collect_home cd home c w = Returns (c', w')"
  proof -
    from that eq have "collect_points home states (c\<lparr>tadoclient := t1\<rparr>) w1 = Returns (c', w')"
      by simp
    then have "w' = w1"
      by (simp add: collect_points_appends)
    with f1 fresh show ?thesis by simp
  qed
  from count fresh show ?thesis by simp
next
  case True
  from True assms(2) have stale: "stale"
    by (simp only: cache_stale [symmetric])
  from assms(1) have f1: "count_list (calls w1) (Call_GetZones (Home_Id home))
      = count_list (calls w) (Call_GetZones (Home_Id home))"
    by (rule GetZoneStates_fetches)
  have count: "count_list (calls w') (Call_GetZones (Home_Id home))
        = count_list (calls w) (Call_GetZones (Home_Id home)) + (if stale then 1 else 0)"
    if ret: "collect_home cd home c w = Returns (c', w')"
  proof (cases "GetZones cd t1 (Home_Id home) w1")
    case Panics
    with ret True assms(1) show ?thesis by (simp add: collect_home_def)
  next
    case (Returns y)
    obtain r2 t2' w2' where y: "y = (r2, t2', w2')" by (cases y)
    from Returns y have f2: "count_list (calls w2') (Call_GetZones (Home_Id home))
        = count_list (calls w1) (Call_GetZones (Home_Id home)) + 1"
      by (simp add: GetZones_fetches)
    show ?thesis
    proof (cases r2)
      case (Inl e)
      with ret True assms(1) Returns y have "w' = w2'" by (simp add: collect_home_def)
      with f1 f2 stale show ?thesis by simp
    next
      case (Inr newZones)
      with ret True assms(1) Returns y
      have "collect_points home states
              (c\<lparr>tadoclient := t2', zones := (zones c)(Home_Id home \<mapsto> zone_names newZones)\<rparr>) w2'
            = Returns (c', w')"
        by (simp add: collect_home_def)
      then have "w' = w2'" by (simp add: collect_points_appends)
      with f1 f2 stale show ?thesis by simp
    qed
  qed
  have skip: "collect_home cd home c w = Returns (c\<lparr>tadoclient := t2\<rparr>, w2)"
    if "GetZones cd t1 (Home_Id home) w1 = Returns (Inl err, t2, w2)"
    using that True assms(1) by (simp add: collect_home_def)
  have abort: "collect_home cd home c w = Panics"
    if "GetZones cd t1 (Home_Id home) w1 = Panics"
    using that True assms(1) by (simp add: collect_home_def)
  from count skip abort show ?thesis by simp
qed

text \<open>
  Claim C7 on the code. Home 1 has the cache entry that names zone 10, and its states
  report the zones 10 and 99. With a topology endpoint that answers, the pass for the
  home calls \<^verbatim>\<open>GetZones\<close> once, zone 99 gets its name and both points are built; with
  both zones in the cache there is no call. With an answer of status 401 that carries a
  description, \<^verbatim>\<open>GetZones\<close> returns an error: the pass ends with the cache entry and
  the batch as they were, and the cycle goes on to the second home and to the write.
  With an answer of status 401 whose body is the JSON value \<^verbatim>\<open>null\<close>,
  \<^verbatim>\<open>GetZones\<close> panics on the nil \<^verbatim>\<open>tadoError\<close>, and so do the pass and the whole
  cycle: the home is not skipped, the cycle is aborted.
\<close>

theorem topology_fetch_null_body:
  "(case collect_homes sample_codec [lounge_home] scenarioC_collector (scenarioC_world zones_answer) of
      Panics \<Rightarrow> False
    | Returns (c, w) \<Rightarrow>
        count_list (calls w) (Call_GetZones 1) = 1
        \<and> zone_lookup (zones c) 1 ''99'' = Some ''Attic''
        \<and> map Point_Name (points c) = [''Home.Lounge'', ''Home.Attic''])
   \<and> (case collect_homes sample_codec [lounge_home]
             (scenarioC_collector\<lparr>zones := [1 \<mapsto> [''10'' \<mapsto> ''Lounge'', ''99'' \<mapsto> ''Attic'']]\<rparr>)
             (scenarioC_world zones_answer) of
        Panics \<Rightarrow> False
      | Returns (c, w) \<Rightarrow>
          count_list (calls w) (Call_GetZones 1) = 0
          \<and> map Point_Name (points c) = [''Home.Lounge'', ''Home.Attic''])
   \<and> (case collect_homes sample_codec [lounge_home] scenarioC_collector (scenarioC_world denied_answer) of
        Panics \<Rightarrow> False
      | Returns (c, w) \<Rightarrow>
          count_list (calls w) (Call_GetZones 1) = 1
          \<and> zone_lookup (zones c) 1 ''10'' = Some ''Lounge''
          \<and> zone_lookup (zones c) 1 ''99'' = None
          \<and> map Point_Name (points c) = [])
   \<and> (case collect sample_codec scenarioC_collector (scenarioC_world denied_answer) of
        Panics \<Rightarrow> False
      | Returns (c, w) \<Rightarrow>
          count_list (calls w) (Call_GetZones 1) = 1
          \<and> count_list (calls w) (Call_GetZones 2) = 1
          \<and> last (calls w) = Call_Write [])
   \<and> GetZones sample_codec sample_tado 1 (scenarioC_world null_answer) = Panics
   \<and> collect_homes sample_codec [lounge_home] scenarioC_collector (scenarioC_world null_answer) = Panics
   \<and> collect sample_codec scenarioC_collector (scenarioC_world null_answer) = Panics"
  by (simp add: cycle_defs scenarioA_defs scenarioC_states_def zones_answer_def denied_answer_def
      null_answer_def scenarioC_world_def scenarioC_collector_def lounge_home_def)

end
